theory Spec2Isabelle
  imports Complex_Main
begin

section \<open>Exceptions and results\<close>

text \<open>
  The Python exceptions that the modelled code can raise.  A computation that may raise
  returns \<open>exn + 'a\<close>, with \<open>Inl\<close> for the exception.
\<close>

datatype exn =
    RuntimeError
  | ValueError
  | AttributeError
  | IndexError
  | UnboundLocalError
  | ImportError
  | ModuleNotFoundError
  | ZeroDivisionError
  | OverflowError
  | StopIteration

text \<open>Sequencing of two statements: the second runs only when the first did not raise.\<close>

definition and_then :: "exn + 'a \<Rightarrow> ('a \<Rightarrow> exn + 'b) \<Rightarrow> exn + 'b" where
  "and_then r f = (case r of Inl e \<Rightarrow> Inl e | Inr v \<Rightarrow> f v)"

section \<open>Tensor shapes and the framework layers used by model.py\<close>

text \<open>
  A tensor is represented by its shape \<open>(b, c, h, w)\<close>: batch, channels, height, width.
  Every layer is modelled by what it does to the shape of its input, including the
  checks that make it raise.  The value of \<open>training\<close> is the mode of the module
  (\<open>model.train()\<close> or \<open>model.eval()\<close>).
\<close>

type_synonym shape = "nat \<times> nat \<times> nat \<times> nat"

datatype padding = Pad nat | Same

record conv2d =
  in_channels :: nat
  out_channels :: nat
  kernel_size :: nat
  stride :: nat
  padding :: padding
  dilation :: nat

text \<open>
  Output length of a convolution along one axis, for an input of length \<open>n\<close> padded by
  \<open>tp\<close> in total: \<open>floor ((n + tp - d * (k - 1) - 1) / s) + 1\<close>.  The framework raises
  when the padded input is shorter than the dilated kernel, and on a zero stride or
  dilation.
\<close>

definition conv_size :: "nat \<Rightarrow> nat \<Rightarrow> nat \<Rightarrow> nat \<Rightarrow> nat \<Rightarrow> exn + nat" where
  "conv_size n tp k s d =
     (if s = 0 \<or> d = 0 \<or> k = 0 then Inl RuntimeError
      else if n + tp < d * (k - 1) + 1 then Inl RuntimeError
      else Inr ((n + tp - (d * (k - 1) + 1)) div s + 1))"

text \<open>
  \<open>nn.Conv2d\<close>: the input must have \<open>in_channels\<close> channels.  \<open>padding="same"\<close> pads by
  \<open>d * (k - 1)\<close> in total, an integer padding \<open>p\<close> by \<open>2 * p\<close>.
\<close>

definition total_padding :: "conv2d \<Rightarrow> nat" where
  "total_padding cv =
     (case padding cv of
        Pad p \<Rightarrow> 2 * p
      | Same \<Rightarrow> dilation cv * (kernel_size cv - 1))"

definition Conv2d_forward :: "conv2d \<Rightarrow> shape \<Rightarrow> exn + shape" where
  "Conv2d_forward cv x =
     (case x of (b, c, h, w) \<Rightarrow>
        if c \<noteq> in_channels cv then Inl RuntimeError
        else
          and_then (conv_size h (total_padding cv) (kernel_size cv) (stride cv) (dilation cv)) (\<lambda>h'.
          and_then (conv_size w (total_padding cv) (kernel_size cv) (stride cv) (dilation cv)) (\<lambda>w'.
          Inr (b, out_channels cv, h', w'))))"

text \<open>
  \<open>nn.BatchNorm2d(n)\<close>: in training mode a batch with a single value per channel is
  refused (ValueError); the channel count must be \<open>n\<close>.  The shape is unchanged.
\<close>

definition BatchNorm2d_forward :: "nat \<Rightarrow> bool \<Rightarrow> shape \<Rightarrow> exn + shape" where
  "BatchNorm2d_forward n training x =
     (case x of (b, c, h, w) \<Rightarrow>
        if training \<and> b * h * w = 1 then Inl ValueError
        else if c \<noteq> n then Inl RuntimeError
        else Inr (b, c, h, w))"

definition ReLU_forward :: "shape \<Rightarrow> exn + shape" where
  "ReLU_forward x = Inr x"

text \<open>\<open>nn.MaxPool2d(kernel_size=k, stride=s, padding=p)\<close>, without ceil mode.\<close>

definition pool_size :: "nat \<Rightarrow> nat \<Rightarrow> nat \<Rightarrow> nat \<Rightarrow> exn + nat" where
  "pool_size n k s p =
     (if s = 0 \<or> n + 2 * p < k then Inl RuntimeError
      else Inr ((n + 2 * p - k) div s + 1))"

definition MaxPool2d_forward :: "nat \<Rightarrow> nat \<Rightarrow> nat \<Rightarrow> shape \<Rightarrow> exn + shape" where
  "MaxPool2d_forward k s p x =
     (case x of (b, c, h, w) \<Rightarrow>
        and_then (pool_size h k s p) (\<lambda>h'.
        and_then (pool_size w k s p) (\<lambda>w'.
        Inr (b, c, h', w'))))"

text \<open>\<open>nn.AdaptiveAvgPool2d(output_size=1)\<close>: every non-batch dimension must be non-zero.\<close>

definition AdaptiveAvgPool2d_forward :: "shape \<Rightarrow> exn + shape" where
  "AdaptiveAvgPool2d_forward x =
     (case x of (b, c, h, w) \<Rightarrow>
        if c = 0 \<or> h = 0 \<or> w = 0 then Inl RuntimeError
        else Inr (b, c, 1, 1))"

text \<open>
  \<open>F.interpolate(x, size=(s1, s2), mode=..., align_corners=...)\<close>: the two spatial
  dimensions become \<open>s1\<close> and \<open>s2\<close>; input and output sizes must be positive.  The mode and
  the corner alignment do not change the shape.
\<close>

datatype interp_mode = Nearest | Bilinear | Bicubic

definition interpolate :: "shape \<Rightarrow> nat \<times> nat \<Rightarrow> interp_mode \<Rightarrow> bool \<Rightarrow> exn + shape" where
  "interpolate x sz mode align_corners =
     (case x of (b, c, h, w) \<Rightarrow>
        if h = 0 \<or> w = 0 \<or> fst sz = 0 \<or> snd sz = 0 then Inl RuntimeError
        else Inr (b, c, fst sz, snd sz))"

text \<open>
  \<open>torch.cat(xs, dim=1)\<close>: all tensors must agree on every dimension but the channels,
  which are added up.  An empty list is refused.
\<close>

fun cat_dim1 :: "shape list \<Rightarrow> exn + shape" where
  "cat_dim1 [] = Inl RuntimeError"
| "cat_dim1 [x] = Inr x"
| "cat_dim1 (x # y # ys) =
     and_then (cat_dim1 (y # ys)) (\<lambda>r.
       case x of (b, c, h, w) \<Rightarrow>
       case r of (b', c', h', w') \<Rightarrow>
         if b = b' \<and> h = h' \<and> w = w' then Inr (b, c + c', h, w) else Inl RuntimeError)"

text \<open>
  \<open>nn.Sequential\<close>: the modules are applied one after the other; the first exception
  ends the pass.
\<close>

fun Sequential :: "('a \<Rightarrow> exn + 'a) list \<Rightarrow> 'a \<Rightarrow> exn + 'a" where
  "Sequential [] x = Inr x"
| "Sequential (f # fs) x = and_then (f x) (Sequential fs)"

section \<open>The residual network of torchvision, as instantiated by model.py\<close>

text \<open>
  \<open>resnet50\<close> is torchvision's \<open>ResNet(Bottleneck, [3, 4, 6, 3])\<close>.  The constructors
  below follow \<open>Bottleneck.__init__\<close>, \<open>ResNet._make_layer\<close> and \<open>ResNet.__init__\<close>
  (groups 1, base width 64, expansion 4).
\<close>

definition conv1x1 :: "nat \<Rightarrow> nat \<Rightarrow> nat \<Rightarrow> conv2d" where
  "conv1x1 in_planes out_planes s =
     \<lparr>in_channels = in_planes, out_channels = out_planes, kernel_size = 1,
      stride = s, padding = Pad 0, dilation = 1\<rparr>"

definition conv3x3 :: "nat \<Rightarrow> nat \<Rightarrow> nat \<Rightarrow> nat \<Rightarrow> conv2d" where
  "conv3x3 in_planes out_planes s d =
     \<lparr>in_channels = in_planes, out_channels = out_planes, kernel_size = 3,
      stride = s, padding = Pad d, dilation = d\<rparr>"

record bottleneck =
  conv1 :: conv2d
  bn1 :: nat
  conv2 :: conv2d
  bn2 :: nat
  conv3 :: conv2d
  bn3 :: nat
  downsample :: "(conv2d \<times> nat) option"

definition Bottleneck_init ::
  "nat \<Rightarrow> nat \<Rightarrow> nat \<Rightarrow> (conv2d \<times> nat) option \<Rightarrow> nat \<Rightarrow> bottleneck" where
  "Bottleneck_init inplanes planes s ds d =
     (let width = planes in
      \<lparr>conv1 = conv1x1 inplanes width 1, bn1 = width,
       conv2 = conv3x3 width width s d, bn2 = width,
       conv3 = conv1x1 width (planes * 4) 1, bn3 = planes * 4,
       downsample = ds\<rparr>)"

text \<open>
  The in-place addition \<open>out += identity\<close> needs \<open>identity\<close> to broadcast to the shape
  of \<open>out\<close>: each dimension equal, or 1 in \<open>identity\<close>.
\<close>

definition broadcasts_to :: "shape \<Rightarrow> shape \<Rightarrow> bool" where
  "broadcasts_to i out =
     (case i of (b, c, h, w) \<Rightarrow>
      case out of (b', c', h', w') \<Rightarrow>
        (b = b' \<or> b = 1) \<and> (c = c' \<or> c = 1) \<and> (h = h' \<or> h = 1) \<and> (w = w' \<or> w = 1))"

definition iadd :: "shape \<Rightarrow> shape \<Rightarrow> exn + shape" where
  "iadd out i = (if broadcasts_to i out then Inr out else Inl RuntimeError)"

definition Bottleneck_forward :: "bottleneck \<Rightarrow> bool \<Rightarrow> shape \<Rightarrow> exn + shape" where
  "Bottleneck_forward blk training x =
     and_then (Conv2d_forward (conv1 blk) x) (\<lambda>out.
     and_then (BatchNorm2d_forward (bn1 blk) training out) (\<lambda>out.
     and_then (ReLU_forward out) (\<lambda>out.
     and_then (Conv2d_forward (conv2 blk) out) (\<lambda>out.
     and_then (BatchNorm2d_forward (bn2 blk) training out) (\<lambda>out.
     and_then (ReLU_forward out) (\<lambda>out.
     and_then (Conv2d_forward (conv3 blk) out) (\<lambda>out.
     and_then (BatchNorm2d_forward (bn3 blk) training out) (\<lambda>out.
     and_then
       (case downsample blk of
          None \<Rightarrow> Inr x
        | Some (cv, n) \<Rightarrow> and_then (Conv2d_forward cv x) (BatchNorm2d_forward n training))
       (\<lambda>identity.
     and_then (iadd out identity) ReLU_forward)))))))))"

text \<open>
  \<open>_make_layer\<close> reads and updates the attributes \<open>inplanes\<close> and \<open>dilation\<close> of the
  network under construction; they are passed in and returned.
\<close>

definition make_layer ::
  "nat \<times> nat \<Rightarrow> nat \<Rightarrow> nat \<Rightarrow> nat \<Rightarrow> bool \<Rightarrow> bottleneck list \<times> (nat \<times> nat)" where
  "make_layer st planes blocks s dilate =
     (case st of (inplanes, dil) \<Rightarrow>
        let previous_dilation = dil;
            dil' = (if dilate then dil * s else dil);
            s' = (if dilate then 1 else s);
            ds = (if s' \<noteq> 1 \<or> inplanes \<noteq> planes * 4
                  then Some (conv1x1 inplanes (planes * 4) s', planes * 4) else None);
            first = Bottleneck_init inplanes planes s' ds previous_dilation;
            inplanes' = planes * 4
        in (first # replicate (blocks - 1) (Bottleneck_init inplanes' planes 1 None dil'),
            (inplanes', dil')))"

record resnet =
  rn_conv1 :: conv2d
  rn_bn1 :: nat
  rn_maxpool :: "nat \<times> nat \<times> nat"
  layer1 :: "bottleneck list"
  layer2 :: "bottleneck list"
  layer3 :: "bottleneck list"
  layer4 :: "bottleneck list"

definition resnet50 :: "bool \<times> bool \<times> bool \<Rightarrow> resnet" where
  "resnet50 replace_stride_with_dilation =
     (case replace_stride_with_dilation of (r0, r1, r2) \<Rightarrow>
        let st0 = (64, 1);
            (l1, st1) = make_layer st0 64 3 1 False;
            (l2, st2) = make_layer st1 128 4 2 r0;
            (l3, st3) = make_layer st2 256 6 2 r1;
            (l4, st4) = make_layer st3 512 3 2 r2
        in \<lparr>rn_conv1 = \<lparr>in_channels = 3, out_channels = 64, kernel_size = 7,
                         stride = 2, padding = Pad 3, dilation = 1\<rparr>,
            rn_bn1 = 64,
            rn_maxpool = (3, 2, 1),
            layer1 = l1, layer2 = l2, layer3 = l3, layer4 = l4\<rparr>)"

definition layer_forward :: "bottleneck list \<Rightarrow> bool \<Rightarrow> shape \<Rightarrow> exn + shape" where
  "layer_forward blks training = Sequential (map (\<lambda>blk. Bottleneck_forward blk training) blks)"

section \<open>model.py\<close>

text \<open>\<open>RESNET50 = resnet50(weights=ResNet50_Weights.IMAGENET1K_V2)\<close>\<close>

definition RESNET50 :: resnet where
  "RESNET50 = resnet50 (False, False, False)"

subsection \<open>ResNet50Backbone\<close>

record ResNet50Backbone =
  conv1_pool1 :: "(shape \<Rightarrow> exn + shape) list"
  block1 :: "bottleneck list"
  block2 :: "bottleneck list"
  block3 :: "bottleneck list"

definition ResNet50Backbone_init :: "bool \<Rightarrow> ResNet50Backbone" where
  "ResNet50Backbone_init training =
     \<lparr>conv1_pool1 =
        [Conv2d_forward (rn_conv1 RESNET50),
         BatchNorm2d_forward (rn_bn1 RESNET50) training,
         ReLU_forward,
         (case rn_maxpool RESNET50 of (k, s, p) \<Rightarrow> MaxPool2d_forward k s p),
         layer_forward (layer1 RESNET50) training],
      block1 = layer2 RESNET50,
      block2 = layer3 RESNET50,
      block3 = layer4 RESNET50\<rparr>"

definition ResNet50Backbone_forward :: "bool \<Rightarrow> shape \<Rightarrow> exn + shape" where
  "ResNet50Backbone_forward training x =
     (let bb = ResNet50Backbone_init training in
      and_then (Sequential (conv1_pool1 bb) x) (\<lambda>x.
      and_then (layer_forward (block1 bb) training x) (\<lambda>x.
      and_then (layer_forward (block2 bb) training x) (\<lambda>x.
      layer_forward (block3 bb) training x))))"

subsection \<open>ConvBlock\<close>

record ConvBlock =
  cb_conv :: conv2d
  cb_bn :: nat

definition ConvBlock_init :: "nat \<Rightarrow> nat \<Rightarrow> nat \<Rightarrow> ConvBlock" where
  "ConvBlock_init in_ch k d =
     \<lparr>cb_conv = \<lparr>in_channels = in_ch, out_channels = 256, kernel_size = k,
                  stride = 1, padding = Same, dilation = d\<rparr>,
      cb_bn = 256\<rparr>"

definition ConvBlock_forward :: "ConvBlock \<Rightarrow> bool \<Rightarrow> shape \<Rightarrow> exn + shape" where
  "ConvBlock_forward cb training x =
     and_then (Conv2d_forward (cb_conv cb) x) (\<lambda>x.
     and_then (BatchNorm2d_forward (cb_bn cb) training x) (\<lambda>x.
     ReLU_forward x))"

subsection \<open>ImagePooling\<close>

record ImagePooling =
  ip_conv :: conv2d
  ip_bn :: nat

definition ImagePooling_init :: ImagePooling where
  "ImagePooling_init =
     \<lparr>ip_conv = \<lparr>in_channels = 64, out_channels = 256, kernel_size = 1,
                  stride = 1, padding = Pad 0, dilation = 1\<rparr>,
      ip_bn = 256\<rparr>"

text \<open>
  The first statement of \<open>forward\<close>, \<open>_, _, w, h = x.shape\<close>, binds \<open>w\<close> to the third
  dimension and \<open>h\<close> to the fourth; the pair \<open>(w, h)\<close> is what is later passed as
  \<open>size\<close>.
\<close>

definition ImagePooling_size :: "shape \<Rightarrow> nat \<times> nat" where
  "ImagePooling_size x = (case x of (_, _, w, h) \<Rightarrow> (w, h))"

definition ImagePooling_forward :: "ImagePooling \<Rightarrow> bool \<Rightarrow> shape \<Rightarrow> exn + shape" where
  "ImagePooling_forward ip training x =
     (let sz = ImagePooling_size x in
      and_then (AdaptiveAvgPool2d_forward x) (\<lambda>x.
      and_then (Conv2d_forward (ip_conv ip) x) (\<lambda>x.
      and_then (BatchNorm2d_forward (ip_bn ip) training x) (\<lambda>x.
      and_then (ReLU_forward x) (\<lambda>x.
      interpolate x sz Bilinear False)))))"

subsection \<open>ASPP\<close>

text \<open>Indexing a tuple: out of range raises IndexError.\<close>

definition index :: "'a list \<Rightarrow> nat \<Rightarrow> exn + 'a" where
  "index xs i = (if i < length xs then Inr (xs ! i) else Inl IndexError)"

record ASPP =
  atrous_rates :: "nat list"
  conv_block1 :: ConvBlock
  conv_block2 :: ConvBlock
  conv_block3 :: ConvBlock
  conv_block4 :: ConvBlock
  image_pooling :: ImagePooling

definition ASPP_init :: "nat list \<Rightarrow> exn + ASPP" where
  "ASPP_init rates =
     and_then (index rates 0) (\<lambda>r0.
     and_then (index rates 1) (\<lambda>r1.
     and_then (index rates 2) (\<lambda>r2.
     Inr \<lparr>atrous_rates = rates,
          conv_block1 = ConvBlock_init 64 1 1,
          conv_block2 = ConvBlock_init 64 3 r0,
          conv_block3 = ConvBlock_init 64 3 r1,
          conv_block4 = ConvBlock_init 64 3 r2,
          image_pooling = ImagePooling_init\<rparr>)))"

definition ASPP_forward :: "ASPP \<Rightarrow> bool \<Rightarrow> shape \<Rightarrow> exn + shape" where
  "ASPP_forward a training x =
     and_then (ConvBlock_forward (conv_block1 a) training x) (\<lambda>x1.
     and_then (ConvBlock_forward (conv_block2 a) training x) (\<lambda>x2.
     and_then (ConvBlock_forward (conv_block3 a) training x) (\<lambda>x3.
     and_then (ConvBlock_forward (conv_block4 a) training x) (\<lambda>x4.
     and_then (ImagePooling_forward (image_pooling a) training x) (\<lambda>x5.
     cat_dim1 [x1, x2, x3, x4, x5])))))"

subsection \<open>DeepLabv3\<close>

text \<open>
  Attributes set on \<open>self\<close> by plain assignment are kept in a dictionary; reading an
  attribute that was never assigned raises AttributeError.
\<close>

definition getattr :: "(string \<rightharpoonup> 'v) \<Rightarrow> string \<Rightarrow> exn + 'v" where
  "getattr self name = (case self name of None \<Rightarrow> Inl AttributeError | Some v \<Rightarrow> Inr v)"

record DeepLabv3 =
  n_classes :: nat
  rates :: "nat list"
  block4 :: "bottleneck list"
  aspp :: ASPP
  conv_block :: ConvBlock
  fin_conv :: conv2d

text \<open>
  \<open>DeepLabv3.__init__(output_stride, n_classes)\<close>.  The pretrained networks are taken to
  load; \<open>deeplabv3_resnet50().backbone\<close> is \<open>resnet50\<close> with
  \<open>replace_stride_with_dilation=[False, True, True]\<close>.
\<close>

definition DeepLabv3_init :: "int \<Rightarrow> nat \<Rightarrow> exn + DeepLabv3" where
  "DeepLabv3_init output_stride n =
     (let self = Map.empty;
          self = (if output_stride = 16 then self(''atrous_rates'' \<mapsto> [6, 12, 18]) else self);
          blk4 = layer4 (resnet50 (False, True, True))
      in and_then (getattr self ''atrous_rates'') (\<lambda>rs.
         and_then (ASPP_init rs) (\<lambda>a.
         Inr \<lparr>n_classes = n,
              rates = rs,
              block4 = blk4,
              aspp = a,
              conv_block = ConvBlock_init 1280 1 1,
              fin_conv = \<lparr>in_channels = 256, out_channels = n, kernel_size = 1,
                           stride = 1, padding = Pad 0, dilation = 1\<rparr>\<rparr>)))"

definition DeepLabv3_forward :: "DeepLabv3 \<Rightarrow> bool \<Rightarrow> shape \<Rightarrow> exn + shape" where
  "DeepLabv3_forward m training x =
     and_then (ResNet50Backbone_forward training x) (\<lambda>x.
     and_then (layer_forward (block4 m) training x) (\<lambda>x.
     and_then (ASPP_forward (aspp m) training x) (\<lambda>x.
     and_then (ConvBlock_forward (conv_block m) training x) (\<lambda>x.
     Conv2d_forward (fin_conv m) x))))"

text \<open>
  The names bound at the top level of model.py, in the order of their binding, and the
  execution of the module: after the definitions it builds a model with the default
  arguments and applies it, in the training mode a new module is in, to a tensor of shape
  \<open>(2, 3, 224, 224)\<close>.
\<close>

definition model_py_names :: "string list" where
  "model_py_names =
     [''torch'', ''nn'', ''F'', ''ssl'', ''resnet50'', ''ResNet50_Weights'',
      ''deeplabv3_resnet50'', ''RESNET50'', ''ResNet50Backbone'', ''ConvBlock'',
      ''ImagePooling'', ''ASPP'', ''DeepLabv3'', ''deeplabv3'', ''x'', ''out'']"

definition model_py :: "exn + string list" where
  "model_py =
     and_then (DeepLabv3_init 16 21) (\<lambda>deeplabv3.
     and_then (DeepLabv3_forward deeplabv3 True (2, 3, 224, 224)) (\<lambda>out.
     Inr model_py_names))"

section \<open>train.py\<close>

text \<open>
  \<open>from m import name\<close>: the module is executed; an exception of its body leaves the
  import statement, and a name the module does not bind raises ImportError.
\<close>

definition import_from :: "exn + string list \<Rightarrow> string \<Rightarrow> exn + unit" where
  "import_from m name =
     and_then m (\<lambda>names. if name \<in> set names then Inr () else Inl ImportError)"

text \<open>
  The program train.py up to its line 11.  Line 10 imports from a module that is not part
  of the two source files; its outcome is a parameter, and so is everything from line 12
  on (the remaining imports, the set-up and the training loop).
\<close>

definition train_py :: "exn + unit \<Rightarrow> (unit \<Rightarrow> exn + 'a) \<Rightarrow> exn + 'a" where
  "train_py import_voc2012 continue =
     and_then import_voc2012 (\<lambda>_.
     and_then (import_from model_py ''DeepLabv3ResNet101'') (\<lambda>_.
     continue ()))"

subsection \<open>Floating-point arithmetic\<close>

text \<open>
  Python's \<open>float\<close> is the IEEE double.  A finite double is represented by the real number
  it denotes, and an operation by its exact result rounded to the nearest double, ties to
  even.  The doubles around \<open>x\<close> are the multiples of \<open>2 ^ ulp_exp x\<close>: 53 significant
  bits, and the smallest exponent \<open>- 1022\<close> for the subnormal numbers.  \<open>rne\<close> rounds a real
  number to the nearest integer, ties to even.
\<close>

definition rne :: "real \<Rightarrow> int" where
  "rne y =
     (let f = \<lfloor>y\<rfloor>; r = y - of_int f in
      if r < 1 / 2 then f
      else if 1 / 2 < r then f + 1
      else if even f then f else f + 1)"

definition ulp_exp :: "real \<Rightarrow> int" where
  "ulp_exp x = max \<lfloor>log 2 \<bar>x\<bar>\<rfloor> (- 1022) - 52"

definition round_double :: "real \<Rightarrow> real" where
  "round_double x =
     (if x = 0 then 0
      else of_int (rne (x / 2 powr of_int (ulp_exp x))) * 2 powr of_int (ulp_exp x))"

text \<open>
  A result whose rounding would leave the range of the finite doubles: the largest one is
  \<open>2 ^ 1024 - 2 ^ 971\<close>, and the rounding reaches \<open>2 ^ 1024\<close> from \<open>2 ^ 1024 - 2 ^ 970\<close> on.
\<close>

definition overflows :: "real \<Rightarrow> bool" where
  "overflows r \<longleftrightarrow> 2 ^ 1024 - 2 ^ 970 \<le> \<bar>r\<bar>"

text \<open>
  The values \<open>get_lr\<close> computes with: a float, or (from a negative base raised to a
  fractional power) a complex number, of which no more is recorded.
\<close>

datatype pynum = PyFloat real | PyComplex

text \<open>
  \<open>a / b\<close> on two integers is the correctly rounded quotient; it raises on a zero divisor
  and when the quotient is too large for a float.
\<close>

definition int_truediv :: "int \<Rightarrow> int \<Rightarrow> exn + real" where
  "int_truediv a b =
     (if b = 0 then Inl ZeroDivisionError
      else if overflows (real_of_int a / real_of_int b) then Inl OverflowError
      else Inr (round_double (real_of_int a / real_of_int b)))"

text \<open>
  \<open>x ** y\<close> on two floats.  The power function of the C library is taken as correctly
  rounded; it returns exactly 1 for the exponent 0 and for the base 1.
\<close>

definition float_pow :: "real \<Rightarrow> real \<Rightarrow> exn + pynum" where
  "float_pow x y =
     (if y = 0 then Inr (PyFloat 1)
      else if x = 0 then (if y < 0 then Inl ZeroDivisionError else Inr (PyFloat 0))
      else if x < 0 \<and> y \<notin> \<int> then Inr PyComplex
      else
        let r = (if x < 0 then (if even \<lfloor>y\<rfloor> then 1 else - 1) * (- x) powr y else x powr y)
        in if overflows r then Inl OverflowError else Inr (PyFloat (round_double r)))"

text \<open>\<open>1 - v\<close>\<close>

definition one_minus :: "pynum \<Rightarrow> pynum" where
  "one_minus v = (case v of PyFloat r \<Rightarrow> PyFloat (round_double (1 - r)) | PyComplex \<Rightarrow> PyComplex)"

subsection \<open>get_lr\<close>

text \<open>
  \<open>lr = 1 - (step / n_steps) ** power\<close>, with the parameter \<open>power\<close> written \<open>pwr\<close>; its
  default value is the literal \<open>0.9\<close>, the double nearest to \<open>9 / 10\<close>.
\<close>

definition default_power :: real where
  "default_power = round_double (9 / 10)"

definition get_lr :: "int \<Rightarrow> int \<Rightarrow> real \<Rightarrow> exn + pynum" where
  "get_lr step n_steps pwr =
     and_then (int_truediv step n_steps) (\<lambda>q.
     and_then (float_pow q pwr) (\<lambda>p.
     Inr (one_minus p)))"

subsection \<open>evaluate\<close>

text \<open>
  The local variables of \<open>evaluate\<close> that the loop updates: \<open>sum_miou\<close>, and \<open>batch\<close>,
  which is unbound (\<open>None\<close>) until the \<open>for\<close> statement assigns it.  The model and the
  metric are parameters and may raise.
\<close>

fun evaluate_loop ::
  "('img \<Rightarrow> exn + 'pred) \<Rightarrow> ('pred \<Rightarrow> 'gt \<Rightarrow> exn + real) \<Rightarrow>
   real \<times> nat option \<Rightarrow> (nat \<times> 'img \<times> 'gt) list \<Rightarrow> exn + real \<times> nat option" where
  "evaluate_loop model metric (sum_miou, batch) [] = Inr (sum_miou, batch)"
| "evaluate_loop model metric (sum_miou, _) ((batch, img, gt) # rest) =
     and_then (model img) (\<lambda>pred.
     and_then (metric pred gt) (\<lambda>miou.
     evaluate_loop model metric (sum_miou + miou, Some batch) rest))"

text \<open>\<open>enumerate(xs, start=1)\<close>\<close>

definition enumerate1 :: "'a list \<Rightarrow> (nat \<times> 'a) list" where
  "enumerate1 xs = zip [1 ..< Suc (length xs)] xs"

definition evaluate ::
  "('img \<times> 'gt) list \<Rightarrow> ('img \<Rightarrow> exn + 'pred) \<Rightarrow> ('pred \<Rightarrow> 'gt \<Rightarrow> exn + real) \<Rightarrow> exn + real" where
  "evaluate val_dl model metric =
     and_then (evaluate_loop model metric (0, None) (enumerate1 val_dl)) (\<lambda>(sum_miou, batch).
       case batch of
         None \<Rightarrow> Inl UnboundLocalError
       | Some n \<Rightarrow> if n = 0 then Inl ZeroDivisionError else Inr (sum_miou / real n))"

subsection \<open>The training loop\<close>

text \<open>
  The operations of one step are parameters: \<open>next(train_di)\<close>, \<open>iter(train_dl)\<close> (its
  argument counts the earlier calls, since every call reshuffles), the transfer of the
  minibatch to the device (lines 95 and 96), the update of the parameters with the
  learning rate (lines 99 to 111), and the logging and evaluation (lines 113 to 126).
  Each may raise.
\<close>

record ('it, 'b, 's) train_env =
  next_batch :: "'it \<Rightarrow> exn + 'b \<times> 'it"
  iter_train_dl :: "nat \<Rightarrow> exn + 'it"
  to_device :: "'b \<Rightarrow> exn + 'b"
  optimise :: "pynum \<Rightarrow> 'b \<Rightarrow> 's \<Rightarrow> exn + 's"
  report :: "int \<Rightarrow> pynum \<Rightarrow> 's \<Rightarrow> exn + 's"

text \<open>
  The state of the loop: the iterator \<open>train_di\<close>, everything else the step mutates, and
  two counters of the calls to \<open>next\<close> and \<open>iter\<close> made so far.
\<close>

record ('it, 's) loop_state =
  train_di :: 'it
  params :: 's
  next_calls :: nat
  iter_calls :: nat

text \<open>Lines 90 to 94: the \<open>try\<close> statement.\<close>

definition draw ::
  "('it, 'b, 's) train_env \<Rightarrow> ('it, 's) loop_state \<Rightarrow> exn + 'b \<times> ('it, 's) loop_state" where
  "draw env st =
     (case next_batch env (train_di st) of
        Inr (batch, it) \<Rightarrow>
          Inr (batch, st\<lparr>train_di := it, next_calls := next_calls st + 1\<rparr>)
      | Inl e \<Rightarrow>
          if e = StopIteration then
            and_then (iter_train_dl env (iter_calls st)) (\<lambda>it.
            and_then (next_batch env it) (\<lambda>(batch, it').
            Inr (batch, st\<lparr>train_di := it', next_calls := next_calls st + 2,
                           iter_calls := iter_calls st + 1\<rparr>)))
          else Inl e)"

definition train_step ::
  "('it, 'b, 's) train_env \<Rightarrow> int \<Rightarrow> int \<Rightarrow> ('it, 's) loop_state \<Rightarrow> exn + ('it, 's) loop_state" where
  "train_step env n_steps step st =
     and_then (draw env st) (\<lambda>(batch, st).
     and_then (to_device env batch) (\<lambda>batch.
     and_then (get_lr step n_steps default_power) (\<lambda>lr.
     and_then (optimise env lr batch (params st)) (\<lambda>s.
     and_then (report env step lr s) (\<lambda>s.
     Inr (st\<lparr>params := s\<rparr>))))))"

text \<open>\<open>for step in range(1, N_STEPS + 1)\<close>: an exception of a step ends the loop.\<close>

fun train_loop ::
  "('it, 'b, 's) train_env \<Rightarrow> int \<Rightarrow> ('it, 's) loop_state \<Rightarrow> int list \<Rightarrow> exn + ('it, 's) loop_state" where
  "train_loop env n_steps st [] = Inr st"
| "train_loop env n_steps st (step # steps) =
     and_then (train_step env n_steps step st) (\<lambda>st. train_loop env n_steps st steps)"

definition train :: "('it, 'b, 's) train_env \<Rightarrow> int \<Rightarrow> ('it, 's) loop_state \<Rightarrow> exn + ('it, 's) loop_state" where
  "train env n_steps st = train_loop env n_steps st [1 .. n_steps]"

section \<open>Auxiliary notions\<close>

text \<open>
  The length left by one strided stage: \<open>down n s\<close> is \<open>n / s\<close> rounded up, for
  \<open>n \<ge> 1\<close>.
\<close>

definition down :: "nat \<Rightarrow> nat \<Rightarrow> nat" where
  "down n s = (n - 1) div s + 1"

text \<open>
  A stage that takes \<open>cin\<close> channels to \<open>cout\<close> channels and divides the spatial
  size by \<open>k\<close>, with the exceptions of a convolution followed by batch normalisation: a
  wrong channel count or an empty image raises RuntimeError, a single value per channel
  in training mode raises ValueError.
\<close>

definition stage :: "nat \<Rightarrow> nat \<Rightarrow> nat \<Rightarrow> bool \<Rightarrow> shape \<Rightarrow> exn + shape" where
  "stage cin cout k training x =
     (case x of (b, c, h, w) \<Rightarrow>
        if c \<noteq> cin \<or> h = 0 \<or> w = 0 then Inl RuntimeError
        else if training \<and> b * down h k * down w k = 1 then Inl ValueError
        else Inr (b, cout, down h k, down w k))"

section \<open>Basic facts\<close>

lemma and_then_Inr_iff: "and_then r f = Inr y \<longleftrightarrow> (\<exists>v. r = Inr v \<and> f v = Inr y)"
  by (cases r) (simp_all add: and_then_def)

lemma and_then_Inr [simp]: "and_then (Inr v) f = f v"
  by (simp add: and_then_def)

lemma and_then_Inl [simp]: "and_then (Inl e) f = Inl e"
  by (simp add: and_then_def)

lemma enumerate1_Nil: "enumerate1 [] = []"
  by (simp add: enumerate1_def)

section \<open>Shapes through the residual stages\<close>

lemma down_one [simp]: "0 < n \<Longrightarrow> down n 1 = n"
  by (simp add: down_def)

lemma down_one' [simp]: "0 < n \<Longrightarrow> down n (Suc 0) = n"
  by (simp add: down_def)

lemma down_down: "down (down n a) b = down n (a * b)"
  by (simp add: down_def div_mult2_eq)

lemma down_pos [simp]: "0 < down n s"
  by (simp add: down_def)

lemma down_neq0 [simp]: "down n s \<noteq> 0"
  by (simp add: down_def)

lemma down_eq_1: "down n a = 1 \<Longrightarrow> down n (a * b) = 1"
  by (simp add: down_def div_mult2_eq)

lemma prod3_eq_1: "(b::nat) * h * w = 1 \<longleftrightarrow> b = 1 \<and> h = 1 \<and> w = 1"
  by auto

lemma check_mono:
  "b * down h a * down w a = 1 \<Longrightarrow> b * down h (a * k) * down w (a * k) = 1"
  by (simp add: prod3_eq_1 down_eq_1 del: One_nat_def)

lemma check_mono0:
  "0 < h \<Longrightarrow> 0 < w \<Longrightarrow> b * h * w = 1 \<Longrightarrow> b * down h k * down w k = 1"
  by (simp add: prod3_eq_1 down_def)

lemma conv_size_k1: "0 < s \<Longrightarrow>
  conv_size n 0 (Suc 0) s (Suc 0) = (if n = 0 then Inl RuntimeError else Inr (down n s))"
  by (simp add: conv_size_def down_def)

lemma conv_size_k3: "0 < s \<Longrightarrow> 0 < d \<Longrightarrow>
  conv_size n (2 * d) 3 s d = (if n = 0 then Inl RuntimeError else Inr (down n s))"
  by (simp add: conv_size_def down_def)

lemma Conv2d_1x1: "0 < s \<Longrightarrow> Conv2d_forward (conv1x1 i oc s) (b, c, h, w) =
  (if c \<noteq> i \<or> h = 0 \<or> w = 0 then Inl RuntimeError else Inr (b, oc, down h s, down w s))"
  by (simp add: Conv2d_forward_def conv1x1_def total_padding_def conv_size_k1)

lemma Conv2d_3x3: "0 < s \<Longrightarrow> 0 < d \<Longrightarrow> Conv2d_forward (conv3x3 i oc s d) (b, c, h, w) =
  (if c \<noteq> i \<or> h = 0 \<or> w = 0 then Inl RuntimeError else Inr (b, oc, down h s, down w s))"
  by (simp add: Conv2d_forward_def conv3x3_def total_padding_def conv_size_k3)

lemma BatchNorm2d_eq: "BatchNorm2d_forward n tr (b, c, h, w) =
  (if tr \<and> b * h * w = 1 then Inl ValueError else if c = n then Inr (b, c, h, w) else Inl RuntimeError)"
  by (simp add: BatchNorm2d_forward_def)

lemma Bottleneck_stage:
  assumes s: "0 < s" and d: "0 < d"
    and ds: "ds = None \<and> s = 1 \<and> inpl = pl * 4 \<or> ds = Some (conv1x1 inpl (pl * 4) s, pl * 4)"
  shows "Bottleneck_forward (Bottleneck_init inpl pl s ds d) tr x = stage inpl (pl * 4) s tr x"
proof -
  obtain b c h w where x: "x = (b, c, h, w)" by (cases x) auto
  show ?thesis
  proof (cases "c \<noteq> inpl \<or> h = 0 \<or> w = 0")
    case True
    then show ?thesis using s
      by (auto simp: x Bottleneck_forward_def Bottleneck_init_def Conv2d_1x1 stage_def)
  next
    case ok: False
    show ?thesis
    proof (cases "tr \<and> b * h * w = 1")
      case True
      then have "tr \<and> b * down h s * down w s = 1" using ok check_mono0 by auto
      with True ok show ?thesis using s
        by (simp add: x Bottleneck_forward_def Bottleneck_init_def Conv2d_1x1 stage_def BatchNorm2d_eq)
    next
      case bn1: False
      show ?thesis
      proof (cases "tr \<and> b * down h s * down w s = 1")
        case True
        with bn1 ok show ?thesis using s d
          by (simp add: x Bottleneck_forward_def Bottleneck_init_def Conv2d_1x1 Conv2d_3x3
              stage_def BatchNorm2d_eq ReLU_forward_def)
      next
        case False
        with bn1 ok ds show ?thesis using s d
          by (auto simp: x Bottleneck_forward_def Bottleneck_init_def Conv2d_1x1 Conv2d_3x3
              stage_def BatchNorm2d_eq ReLU_forward_def iadd_def broadcasts_to_def)
      qed
    qed
  qed
qed

lemma stage_comp:
  "and_then (stage c1 c2 k1 tr x) (stage c2 c3 k2 tr) = stage c1 c3 (k1 * k2) tr x"
proof -
  obtain b c h w where x: "x = (b, c, h, w)" by (cases x) auto
  show ?thesis
  proof (cases "c \<noteq> c1 \<or> h = 0 \<or> w = 0")
    case True
    then show ?thesis by (auto simp: x stage_def)
  next
    case ok: False
    show ?thesis
    proof (cases "tr \<and> b * down h k1 * down w k1 = 1")
      case True
      then have "tr \<and> b * down h (k1 * k2) * down w (k1 * k2) = 1" using check_mono by blast
      with True ok show ?thesis by (simp add: x stage_def)
    next
      case False
      with ok have 1: "stage c1 c2 k1 tr x = Inr (b, c2, down h k1, down w k1)"
        by (simp add: x stage_def)
      have 2: "stage c2 c3 k2 tr (b, c2, down h k1, down w k1) = stage c1 c3 (k1 * k2) tr x"
        using ok by (simp add: x stage_def down_down)
      show ?thesis by (simp add: 1 2)
    qed
  qed
qed

lemma Sequential_replicate_id: "f x = Inr x \<Longrightarrow> Sequential (replicate k f) x = Inr x"
  by (induction k) simp_all

lemma stage_idem:
  "stage cin cout k tr x = Inr y \<Longrightarrow> stage cout cout 1 tr y = Inr y"
  by (cases x) (auto simp: stage_def split: if_splits)

lemma layer_stage:
  assumes s: "0 < s" and d: "0 < d" and d': "0 < d'"
    and ds: "ds = None \<and> s = 1 \<and> inpl = pl * 4 \<or> ds = Some (conv1x1 inpl (pl * 4) s, pl * 4)"
  shows "layer_forward (Bottleneck_init inpl pl s ds d # replicate k (Bottleneck_init (pl * 4) pl 1 None d')) tr x
         = stage inpl (pl * 4) s tr x"
proof (cases "stage inpl (pl * 4) s tr x")
  case (Inl e)
  then show ?thesis using Bottleneck_stage [OF s d ds, of tr x]
    by (simp add: layer_forward_def)
next
  case (Inr y)
  have f: "Bottleneck_forward (Bottleneck_init (pl * 4) pl 1 None d') tr y = Inr y"
    using Bottleneck_stage [of 1 d' None "pl * 4" pl tr y] d' stage_idem [OF Inr] by simp
  have "Sequential (map (\<lambda>blk. Bottleneck_forward blk tr) (replicate k (Bottleneck_init (pl * 4) pl 1 None d'))) y = Inr y"
    using Sequential_replicate_id [of "Bottleneck_forward (Bottleneck_init (pl * 4) pl 1 None d') tr" y k] f
    by (simp add: map_replicate)
  then show ?thesis using Bottleneck_stage [OF s d ds, of tr x] Inr
    by (simp add: layer_forward_def)
qed

lemma layer1_RESNET50: "layer1 RESNET50 =
  Bottleneck_init 64 64 1 (Some (conv1x1 64 (64 * 4) 1, 64 * 4)) 1 # replicate 2 (Bottleneck_init (64 * 4) 64 1 None 1)"
  by (simp add: RESNET50_def resnet50_def make_layer_def Let_def)

lemma layer2_RESNET50: "layer2 RESNET50 =
  Bottleneck_init 256 128 2 (Some (conv1x1 256 (128 * 4) 2, 128 * 4)) 1 # replicate 3 (Bottleneck_init (128 * 4) 128 1 None 1)"
  by (simp add: RESNET50_def resnet50_def make_layer_def Let_def)

lemma layer3_RESNET50: "layer3 RESNET50 =
  Bottleneck_init 512 256 2 (Some (conv1x1 512 (256 * 4) 2, 256 * 4)) 1 # replicate 5 (Bottleneck_init (256 * 4) 256 1 None 1)"
  by (simp add: RESNET50_def resnet50_def make_layer_def Let_def)

lemma layer4_RESNET50: "layer4 RESNET50 =
  Bottleneck_init 1024 512 2 (Some (conv1x1 1024 (512 * 4) 2, 512 * 4)) 1 # replicate 2 (Bottleneck_init (512 * 4) 512 1 None 1)"
  by (simp add: RESNET50_def resnet50_def make_layer_def Let_def)

lemma layer4_dilated: "layer4 (resnet50 (False, True, True)) =
  Bottleneck_init 1024 512 1 (Some (conv1x1 1024 (512 * 4) 1, 512 * 4)) 2 # replicate 2 (Bottleneck_init (512 * 4) 512 1 None 4)"
  by (simp add: resnet50_def make_layer_def Let_def)

lemma layer1_stage: "layer_forward (layer1 RESNET50) tr x = stage 64 256 1 tr x"
  using layer_stage [of 1 1 1 "Some (conv1x1 64 (64 * 4) 1, 64 * 4)" 64 64 2 tr x]
  by (simp add: layer1_RESNET50)

lemma layer2_stage: "layer_forward (layer2 RESNET50) tr x = stage 256 512 2 tr x"
  using layer_stage [of 2 1 1 "Some (conv1x1 256 (128 * 4) 2, 128 * 4)" 256 128 3 tr x]
  by (simp add: layer2_RESNET50)

lemma layer3_stage: "layer_forward (layer3 RESNET50) tr x = stage 512 1024 2 tr x"
  using layer_stage [of 2 1 1 "Some (conv1x1 512 (256 * 4) 2, 256 * 4)" 512 256 5 tr x]
  by (simp add: layer3_RESNET50)

lemma layer4_stage: "layer_forward (layer4 RESNET50) tr x = stage 1024 2048 2 tr x"
  using layer_stage [of 2 1 1 "Some (conv1x1 1024 (512 * 4) 2, 512 * 4)" 1024 512 2 tr x]
  by (simp add: layer4_RESNET50)

lemma block4_stage: "layer_forward (layer4 (resnet50 (False, True, True))) tr x = stage 1024 2048 1 tr x"
  using layer_stage [of 1 2 4 "Some (conv1x1 1024 (512 * 4) 1, 512 * 4)" 1024 512 2 tr x]
  by (simp add: layer4_dilated)

lemma and_then_return [simp]: "and_then r Inr = r"
  by (cases r) simp_all

lemma Sequential_Nil [simp]: "Sequential [] = Inr"
  by (rule ext) simp

lemma layer_stage_fun:
  "layer_forward (layer2 RESNET50) tr = stage 256 512 2 tr"
  "layer_forward (layer3 RESNET50) tr = stage 512 1024 2 tr"
  "layer_forward (layer4 RESNET50) tr = stage 1024 2048 2 tr"
  by (rule ext, rule layer2_stage, rule ext, rule layer3_stage, rule ext, rule layer4_stage)

lemma conv_size_k7: "conv_size n 6 7 2 (Suc 0) = (if n = 0 then Inl RuntimeError else Inr (down n 2))"
  by (simp add: conv_size_def down_def)

lemma pool_size_k3: "pool_size n 3 2 (Suc 0) = (if n = 0 then Inl RuntimeError else Inr (down n 2))"
  by (simp add: pool_size_def down_def)

lemma stem_conv: "Conv2d_forward (rn_conv1 RESNET50) (b, c, h, w) =
  (if c \<noteq> 3 \<or> h = 0 \<or> w = 0 then Inl RuntimeError else Inr (b, 64, down h 2, down w 2))"
  by (simp add: RESNET50_def resnet50_def make_layer_def Let_def Conv2d_forward_def
      total_padding_def conv_size_k7)

lemma stem_bn: "rn_bn1 RESNET50 = 64"
  by (simp add: RESNET50_def resnet50_def make_layer_def Let_def)

lemma stem_pool: "(case rn_maxpool RESNET50 of (k, s, p) \<Rightarrow> MaxPool2d_forward k s p) (b, c, h, w) =
  (if h = 0 \<or> w = 0 then Inl RuntimeError else Inr (b, c, down h 2, down w 2))"
  by (simp add: RESNET50_def resnet50_def make_layer_def Let_def MaxPool2d_forward_def pool_size_k3)

lemma conv1_pool1_stage:
  "Sequential (conv1_pool1 (ResNet50Backbone_init tr)) x = stage 3 256 4 tr x"
proof -
  obtain b c h w where x: "x = (b, c, h, w)" by (cases x) auto
  show ?thesis
  proof (cases "c \<noteq> 3 \<or> h = 0 \<or> w = 0")
    case True
    then show ?thesis
      by (auto simp: x ResNet50Backbone_init_def stem_conv stage_def)
  next
    case ok: False
    then have cv: "Conv2d_forward (rn_conv1 RESNET50) (b, c, h, w) = Inr (b, 64, down h 2, down w 2)"
      by (simp add: stem_conv)
    show ?thesis
    proof (cases "tr \<and> b * down h 2 * down w 2 = 1")
      case True
      then have "tr \<and> b * down h (2 * 2) * down w (2 * 2) = 1" using check_mono by blast
      then have r: "stage 3 256 4 tr x = Inl ValueError"
        using ok by (simp add: x stage_def)
      have bn: "BatchNorm2d_forward 64 tr (b, 64, down h 2, down w 2) = Inl ValueError"
        using True by (simp add: BatchNorm2d_eq)
      show ?thesis
        by (simp add: x ResNet50Backbone_init_def stem_bn cv bn r [unfolded x])
    next
      case False
      then have bn: "BatchNorm2d_forward 64 tr (b, 64, down h 2, down w 2) = Inr (b, 64, down h 2, down w 2)"
        by (simp add: BatchNorm2d_eq)
      have pl: "(case rn_maxpool RESNET50 of (k, s, p) \<Rightarrow> MaxPool2d_forward k s p)
                  (b, 64, down h 2, down w 2) = Inr (b, 64, down h 4, down w 4)"
        by (simp add: stem_pool down_down)
      have l1: "layer_forward (layer1 RESNET50) tr (b, 64, down h 4, down w 4) = stage 3 256 4 tr (b, c, h, w)"
        using ok by (simp add: layer1_stage stage_def)
      show ?thesis
        by (simp add: x ResNet50Backbone_init_def stem_bn cv bn ReLU_forward_def pl l1)
    qed
  qed
qed

lemma backbone_blocks:
  "block1 (ResNet50Backbone_init tr) = layer2 RESNET50"
  "block2 (ResNet50Backbone_init tr) = layer3 RESNET50"
  "block3 (ResNet50Backbone_init tr) = layer4 RESNET50"
  by (simp_all add: ResNet50Backbone_init_def)

lemma backbone_stage: "ResNet50Backbone_forward tr x = stage 3 2048 32 tr x"
  by (simp add: ResNet50Backbone_forward_def Let_def conv1_pool1_stage backbone_blocks
      layer_stage_fun stage_comp)

lemma ConvBlock_eq:
  "0 < k \<Longrightarrow> ConvBlock_forward (ConvBlock_init i k d) tr (b, c, h, w) =
     (if c \<noteq> i \<or> d = 0 \<or> h = 0 \<or> w = 0 then Inl RuntimeError
      else if tr \<and> b * h * w = 1 then Inl ValueError
      else Inr (b, 256, h, w))"
  by (auto simp: ConvBlock_forward_def ConvBlock_init_def Conv2d_forward_def total_padding_def
      conv_size_def BatchNorm2d_eq ReLU_forward_def)

lemma ImagePooling_eq:
  "ImagePooling_forward ImagePooling_init tr (b, c, h, w) =
     (if c \<noteq> 64 \<or> h = 0 \<or> w = 0 then Inl RuntimeError
      else if tr \<and> b = 1 then Inl ValueError
      else Inr (b, 256, h, w))"
  by (auto simp: ImagePooling_forward_def ImagePooling_init_def ImagePooling_size_def
      AdaptiveAvgPool2d_forward_def Conv2d_forward_def total_padding_def
      conv_size_def BatchNorm2d_eq ReLU_forward_def interpolate_def Let_def)

lemma stage_Inr:
  "stage cin cout k tr (b, c, h, w) = Inr y \<Longrightarrow>
     c = cin \<and> 0 < h \<and> 0 < w \<and> y = (b, cout, down h k, down w k)"
  by (auto simp: stage_def split: if_splits)

lemma down_32: "0 < n \<Longrightarrow> down n 32 = (n + 31) div 32"
  by (simp add: down_def)

lemma backbone_224: "ResNet50Backbone_forward tr (b, 3, 224, 224) = Inr (b, 2048, 7, 7)"
proof -
  have d: "down 224 32 = 7" by (simp add: down_def)
  have "b * 7 * 7 \<noteq> 1" by auto
  then show ?thesis by (simp add: backbone_stage stage_def d)
qed

section \<open>The output stride of the backbone\<close>

text \<open>
  Claim C5, as amended.  \<open>ResNet50Backbone.forward\<close> runs all four residual layers, so its
  output stride is 32, not 16 or 8: whenever it returns on an input of shape
  \<open>(b, c, h, w)\<close>, the input has 3 channels and the result has shape
  \<open>(b, 2048, ceil (h / 32), ceil (w / 32))\<close>; for a height and a width divisible by 32 the
  spatial size is exactly divided by 32.
\<close>

theorem backbone_output_stride_32:
  assumes "ResNet50Backbone_forward tr (b, c, h, w) = Inr y"
  shows "c = 3 \<and> 0 < h \<and> 0 < w \<and> y = (b, 2048, (h + 31) div 32, (w + 31) div 32) \<and>
         (32 dvd h \<longrightarrow> fst (snd (snd y)) * 32 = h) \<and>
         (32 dvd w \<longrightarrow> snd (snd (snd y)) * 32 = w)"
proof -
  from assms have s: "c = 3 \<and> 0 < h \<and> 0 < w \<and> y = (b, 2048, down h 32, down w 32)"
    using stage_Inr [of 3 2048 32 tr b c h w y] by (simp add: backbone_stage)
  then have y: "y = (b, 2048, (h + 31) div 32, (w + 31) div 32)"
    by (simp add: down_32)
  have "32 dvd h \<Longrightarrow> (h + 31) div 32 * 32 = h" by presburger
  moreover have "32 dvd w \<Longrightarrow> (w + 31) div 32 * 32 = w" by presburger
  ultimately show ?thesis using s y by simp
qed

theorem backbone_output_stride_32_witness:
  "ResNet50Backbone_forward True (2, 3, 224, 224) = Inr (2, 2048, 7, 7) \<and>
   (224 + 31) div 32 = (7::nat) \<and> 7 * 32 = (224::nat)"
  using backbone_output_stride_32 [of True 2 3 224 224 "(2, 2048, 7, 7)"]
  by (simp add: backbone_224)

text \<open>
  The claim as stated fails on a \<open>224 \<times> 224\<close> image: the feature map is \<open>7 \<times> 7\<close>, where
  strides 16 and 8 would give \<open>14 \<times> 14\<close> and \<open>28 \<times> 28\<close>.
\<close>

theorem backbone_stride_16_or_8_counterexample:
  "ResNet50Backbone_forward True (2, 3, 224, 224) = Inr (2, 2048, 7, 7) \<and>
   (7::nat) \<noteq> 224 div 16 \<and> (7::nat) \<noteq> 224 div 8"
  by (simp add: backbone_224)

section \<open>Shapes through the ASPP module and the head\<close>

lemma ASPP_init_Inr:
  "ASPP_init rs = Inr a \<Longrightarrow>
     2 < length rs \<and>
     conv_block1 a = ConvBlock_init 64 1 1 \<and>
     conv_block2 a = ConvBlock_init 64 3 (rs ! 0) \<and>
     conv_block3 a = ConvBlock_init 64 3 (rs ! 1) \<and>
     conv_block4 a = ConvBlock_init 64 3 (rs ! 2) \<and>
     image_pooling a = ImagePooling_init"
  by (auto simp: ASPP_init_def index_def and_then_Inr_iff split: if_splits)

lemma ConvBlock_Inr:
  "0 < k \<Longrightarrow> ConvBlock_forward (ConvBlock_init i k d) tr (b, c, h, w) = Inr y \<Longrightarrow>
     c = i \<and> y = (b, 256, h, w)"
  by (simp add: ConvBlock_eq split: if_splits)

lemma ImagePooling_Inr:
  "ImagePooling_forward ImagePooling_init tr (b, c, h, w) = Inr y \<Longrightarrow>
     c = 64 \<and> 0 < h \<and> 0 < w \<and> y = (b, 256, h, w)"
  by (simp add: ImagePooling_eq split: if_splits)

lemma ASPP_forward_Inr:
  assumes "ASPP_init rs = Inr a" and "ASPP_forward a tr (b, c, h, w) = Inr y"
  shows "y = (b, 256 * 5, h, w) \<and>
         ConvBlock_forward (conv_block1 a) tr (b, c, h, w) = Inr (b, 256, h, w) \<and>
         ConvBlock_forward (conv_block2 a) tr (b, c, h, w) = Inr (b, 256, h, w) \<and>
         ConvBlock_forward (conv_block3 a) tr (b, c, h, w) = Inr (b, 256, h, w) \<and>
         ConvBlock_forward (conv_block4 a) tr (b, c, h, w) = Inr (b, 256, h, w) \<and>
         ImagePooling_forward (image_pooling a) tr (b, c, h, w) = Inr (b, 256, h, w)"
proof -
  note a = ASPP_init_Inr [OF assms(1)]
  from assms(2) obtain x1 x2 x3 x4 x5 where
    x1: "ConvBlock_forward (conv_block1 a) tr (b, c, h, w) = Inr x1" and
    x2: "ConvBlock_forward (conv_block2 a) tr (b, c, h, w) = Inr x2" and
    x3: "ConvBlock_forward (conv_block3 a) tr (b, c, h, w) = Inr x3" and
    x4: "ConvBlock_forward (conv_block4 a) tr (b, c, h, w) = Inr x4" and
    x5: "ImagePooling_forward (image_pooling a) tr (b, c, h, w) = Inr x5" and
    ct: "cat_dim1 [x1, x2, x3, x4, x5] = Inr y"
    unfolding ASPP_forward_def and_then_Inr_iff by blast
  have e1: "x1 = (b, 256, h, w)" using x1 a ConvBlock_Inr [of 1 64 1 tr b c h w x1] by simp
  have e2: "x2 = (b, 256, h, w)" using x2 a ConvBlock_Inr [of 3 64 "rs ! 0" tr b c h w x2] by simp
  have e3: "x3 = (b, 256, h, w)" using x3 a ConvBlock_Inr [of 3 64 "rs ! 1" tr b c h w x3] by simp
  have e4: "x4 = (b, 256, h, w)" using x4 a ConvBlock_Inr [of 3 64 "rs ! 2" tr b c h w x4] by simp
  have e5: "x5 = (b, 256, h, w)" using x5 a ImagePooling_Inr [of tr b c h w x5] by simp
  have "y = (b, 256 * 5, h, w)" using ct by (simp add: e1 e2 e3 e4 e5)
  then show ?thesis using x1 x2 x3 x4 x5 e1 e2 e3 e4 e5 by simp
qed

lemma ASPP_init_default: "\<exists>a. ASPP_init [6, 12, 18] = Inr a"
  by (simp add: ASPP_init_def index_def)

lemma ASPP_forward_default:
  assumes i: "ASPP_init [6, 12, 18] = Inr a"
  shows "ASPP_forward a True (2, 64, 7, 7) = Inr (2, 1280, 7, 7)"
  using ASPP_init_Inr [OF i] by (simp add: ASPP_forward_def ConvBlock_eq ImagePooling_eq)

lemma DeepLabv3_init_16:
  "DeepLabv3_init 16 n = Inr m \<Longrightarrow>
     block4 m = layer4 (resnet50 (False, True, True)) \<and>
     conv_block m = ConvBlock_init 1280 1 1 \<and>
     fin_conv m = conv1x1 256 n 1 \<and>
     ASPP_init [6, 12, 18] = Inr (aspp m)"
  by (auto simp: DeepLabv3_init_def getattr_def Let_def and_then_Inr_iff conv1x1_def)

lemma DeepLabv3_init_16_ex: "\<exists>m. DeepLabv3_init 16 n = Inr m"
  by (simp add: DeepLabv3_init_def getattr_def ASPP_init_def index_def Let_def)

lemma fin_conv_Inr:
  "Conv2d_forward (conv1x1 256 n 1) (b, c, h, w) = Inr y \<Longrightarrow> c = 256 \<and> y = (b, n, h, w)"
  using Conv2d_1x1 [of 1 256 n b c h w] by (auto split: if_splits)

lemma block4_Inr:
  "layer_forward (layer4 (resnet50 (False, True, True))) tr (b, c, h, w) = Inr y \<Longrightarrow>
     c = 1024 \<and> y = (b, 2048, h, w)"
  using stage_Inr [of 1024 2048 1 tr b c h w y] by (auto simp: block4_stage)

lemma DeepLabv3_forward_224:
  assumes "DeepLabv3_init 16 n = Inr m"
  shows "DeepLabv3_forward m tr (b, 3, 224, 224) = Inl RuntimeError"
proof -
  note f = DeepLabv3_init_16 [OF assms]
  have "layer_forward (block4 m) tr (b, 2048, 7, 7) = Inl RuntimeError"
    using f by (simp add: block4_stage stage_def)
  then show ?thesis by (simp add: DeepLabv3_forward_def backbone_224)
qed

section \<open>The channels of the ASPP output\<close>

text \<open>
  Claim C3.  Whenever \<open>ASPP.forward\<close> returns, its output has \<open>256 * 5 = 1280\<close>
  channels: each of the five branches (the \<open>1 \<times> 1\<close> convolution, the three dilated
  \<open>3 \<times> 3\<close> convolutions and the image pooling) returns 256 channels at the spatial size
  of the input, and the output is their concatenation along the channel axis.
\<close>

theorem ASPP_channels:
  assumes "ASPP_init rs = Inr a" and "ASPP_forward a tr (b, c, h, w) = Inr y"
  shows "fst (snd y) = 256 * 5 \<and> y = (b, 1280, h, w) \<and>
         ConvBlock_forward (conv_block1 a) tr (b, c, h, w) = Inr (b, 256, h, w) \<and>
         ConvBlock_forward (conv_block2 a) tr (b, c, h, w) = Inr (b, 256, h, w) \<and>
         ConvBlock_forward (conv_block3 a) tr (b, c, h, w) = Inr (b, 256, h, w) \<and>
         ConvBlock_forward (conv_block4 a) tr (b, c, h, w) = Inr (b, 256, h, w) \<and>
         ImagePooling_forward (image_pooling a) tr (b, c, h, w) = Inr (b, 256, h, w) \<and>
         cat_dim1 [(b, 256, h, w), (b, 256, h, w), (b, 256, h, w), (b, 256, h, w), (b, 256, h, w)]
           = Inr y"
proof -
  note t = ASPP_forward_Inr [OF assms]
  from t have y: "y = (b, 1280, h, w)" by simp
  have c: "cat_dim1 [(b, 256, h, w), (b, 256, h, w), (b, 256, h, w), (b, 256, h, w), (b, 256, h, w)]
           = Inr y" by (simp add: y)
  from t y c show ?thesis by simp
qed

theorem ASPP_channels_witness:
  "\<exists>a. ASPP_init [6, 12, 18] = Inr a \<and>
       ASPP_forward a True (2, 64, 7, 7) = Inr (2, 1280, 7, 7) \<and>
       fst (snd (2 :: nat, 1280 :: nat, 7 :: nat, 7 :: nat)) = 256 * 5"
proof -
  obtain a where i: "ASPP_init [6, 12, 18] = Inr a" using ASPP_init_default by blast
  note r = ASPP_forward_default [OF i]
  from ASPP_channels [OF i r] have "fst (snd (2 :: nat, 1280 :: nat, 7 :: nat, 7 :: nat)) = 256 * 5"
    by (rule conjunct1)
  with i r show ?thesis by blast
qed

section \<open>The target size of the image-pooling branch\<close>

text \<open>
  Claim C7.  For every input shape \<open>(b, c, h, w)\<close> the size passed to the bilinear
  interpolation (without corner alignment) of \<open>ImagePooling.forward\<close> is the spatial size
  \<open>(h, w)\<close> of the input, so an output of the branch has the height and the width of its
  input.  The branch returns on every input with 64 channels and a non-empty image,
  unless the module is in training mode and the batch has a single element.
\<close>

theorem ImagePooling_target_size:
  "ImagePooling_size (b, c, h, w) = (h, w) \<and>
   (\<forall>y. ImagePooling_forward ImagePooling_init tr (b, c, h, w) = Inr y \<longrightarrow>
        y = (b, 256, h, w) \<and> interpolate (b, 256, 1, 1) (h, w) Bilinear False = Inr y) \<and>
   (0 < h \<and> 0 < w \<and> \<not> (tr \<and> b = 1) \<longrightarrow>
      ImagePooling_forward ImagePooling_init tr (b, 64, h, w) = Inr (b, 256, h, w))"
proof (intro conjI allI impI)
  show "ImagePooling_size (b, c, h, w) = (h, w)"
    by (simp add: ImagePooling_size_def)
next
  fix y assume "ImagePooling_forward ImagePooling_init tr (b, c, h, w) = Inr y"
  from ImagePooling_Inr [OF this] have p: "0 < h" "0 < w" and y: "y = (b, 256, h, w)"
    by simp_all
  show "y = (b, 256, h, w)" by (rule y)
  show "interpolate (b, 256, 1, 1) (h, w) Bilinear False = Inr y"
    using p by (simp add: interpolate_def y)
next
  assume "0 < h \<and> 0 < w \<and> \<not> (tr \<and> b = 1)"
  then show "ImagePooling_forward ImagePooling_init tr (b, 64, h, w) = Inr (b, 256, h, w)"
    by (simp add: ImagePooling_eq)
qed

theorem ImagePooling_target_size_witness:
  "ImagePooling_size (1, 64, 7, 9) = (7, 9) \<and>
   ImagePooling_forward ImagePooling_init False (1, 64, 7, 9) = Inr (1, 256, 7, 9) \<and>
   interpolate (1, 256, 1, 1) (7, 9) Bilinear False = Inr (1, 256, 7, 9)"
proof -
  note t = ImagePooling_target_size [of 1 64 7 9 False]
  have s: "ImagePooling_size (1, 64, 7, 9) = (7, 9)"
    using t by (rule conjunct1)
  have "(0::nat) < 7 \<and> (0::nat) < 9 \<and> \<not> (False \<and> (1::nat) = 1)" by simp
  with t have f: "ImagePooling_forward ImagePooling_init False (1, 64, 7, 9) = Inr (1, 256, 7, 9)"
    by blast
  with t have i: "interpolate (1, 256, 1, 1) (7, 9) Bilinear False = Inr (1, 256, 7, 9)"
    by blast
  from s f i show ?thesis by blast
qed

section \<open>The shape of the logits\<close>

text \<open>
  Claim C1, as amended.  \<open>DeepLabv3.forward\<close> has no upsampling step.  On an input of
  shape \<open>(b, 3, 224, 224)\<close> the backbone returns a feature map of shape \<open>(b, 2048, 7, 7)\<close>;
  each later stage (\<open>block4\<close>, \<open>aspp\<close>, \<open>conv_block\<close>, \<open>fin_conv\<close>) returns, whenever it
  returns, a tensor of the spatial size it was given, the last one with \<open>n_classes\<close>
  channels; so the forward pass does not return a tensor of shape
  \<open>(b, n_classes, 224, 224)\<close> for this input.
\<close>

theorem forward_logits_shape:
  assumes "DeepLabv3_init 16 n = Inr m"
  shows "ResNet50Backbone_forward tr (b, 3, 224, 224) = Inr (b, 2048, 7, 7) \<and>
         (\<forall>x y. layer_forward (block4 m) tr x = Inr y \<longrightarrow> snd (snd y) = snd (snd x)) \<and>
         (\<forall>x y. ASPP_forward (aspp m) tr x = Inr y \<longrightarrow> snd (snd y) = snd (snd x)) \<and>
         (\<forall>x y. ConvBlock_forward (conv_block m) tr x = Inr y \<longrightarrow> snd (snd y) = snd (snd x)) \<and>
         (\<forall>x y. Conv2d_forward (fin_conv m) x = Inr y \<longrightarrow>
                 snd (snd y) = snd (snd x) \<and> fst (snd y) = n) \<and>
         DeepLabv3_forward m tr (b, 3, 224, 224) \<noteq> Inr (b, n, 224, 224)"
proof (intro conjI allI impI)
  note f = DeepLabv3_init_16 [OF assms]
  show "ResNet50Backbone_forward tr (b, 3, 224, 224) = Inr (b, 2048, 7, 7)"
    by (rule backbone_224)
  { fix x y assume a: "layer_forward (block4 m) tr x = Inr y"
    obtain b' c h w where x: "x = (b', c, h, w)" by (cases x) auto
    from a f have "layer_forward (layer4 (resnet50 (False, True, True))) tr (b', c, h, w) = Inr y"
      by (simp add: x)
    from block4_Inr [OF this] show "snd (snd y) = snd (snd x)" by (simp add: x) }
  { fix x y assume a: "ASPP_forward (aspp m) tr x = Inr y"
    obtain b' c h w where x: "x = (b', c, h, w)" by (cases x) auto
    from f have i: "ASPP_init [6, 12, 18] = Inr (aspp m)" by simp
    from a have "ASPP_forward (aspp m) tr (b', c, h, w) = Inr y" by (simp add: x)
    from ASPP_forward_Inr [OF i this] show "snd (snd y) = snd (snd x)" by (simp add: x) }
  { fix x y assume a: "ConvBlock_forward (conv_block m) tr x = Inr y"
    obtain b' c h w where x: "x = (b', c, h, w)" by (cases x) auto
    from a f have "ConvBlock_forward (ConvBlock_init 1280 1 1) tr (b', c, h, w) = Inr y"
      by (simp add: x)
    from ConvBlock_Inr [OF _ this] show "snd (snd y) = snd (snd x)" by (simp add: x) }
  { fix x y assume a: "Conv2d_forward (fin_conv m) x = Inr y"
    obtain b' c h w where x: "x = (b', c, h, w)" by (cases x) auto
    from a f have "Conv2d_forward (conv1x1 256 n 1) (b', c, h, w) = Inr y"
      by (simp add: x)
    from fin_conv_Inr [OF this] show "snd (snd y) = snd (snd x)" and "fst (snd y) = n"
      by (simp_all add: x) }
  show "DeepLabv3_forward m tr (b, 3, 224, 224) \<noteq> Inr (b, n, 224, 224)"
    by (simp add: DeepLabv3_forward_224 [OF assms])
qed

theorem forward_logits_shape_witness:
  "\<exists>m. DeepLabv3_init 16 21 = Inr m \<and>
       ResNet50Backbone_forward True (2, 3, 224, 224) = Inr (2, 2048, 7, 7) \<and>
       ASPP_forward (aspp m) True (2, 64, 7, 7) = Inr (2, 1280, 7, 7) \<and>
       snd (snd (2 :: nat, 1280 :: nat, 7 :: nat, 7 :: nat))
         = snd (snd (2 :: nat, 64 :: nat, 7 :: nat, 7 :: nat))"
proof -
  obtain m where i: "DeepLabv3_init 16 21 = Inr m" using DeepLabv3_init_16_ex by blast
  note t = forward_logits_shape [OF i, of True 2]
  from DeepLabv3_init_16 [OF i] have a: "ASPP_init [6, 12, 18] = Inr (aspp m)" by simp
  note r = ASPP_forward_default [OF a]
  from t have b: "ResNet50Backbone_forward True (2, 3, 224, 224) = Inr (2, 2048, 7, 7)"
    by (rule conjunct1)
  from t have "\<forall>x y. ASPP_forward (aspp m) True x = Inr y \<longrightarrow> snd (snd y) = snd (snd x)"
    by blast
  with r have s: "snd (snd (2 :: nat, 1280 :: nat, 7 :: nat, 7 :: nat))
         = snd (snd (2 :: nat, 64 :: nat, 7 :: nat, 7 :: nat))" by blast
  from i b r s show ?thesis by blast
qed

text \<open>
  The claim as stated fails on the call that model.py itself makes, with a batch of 2
  and 21 classes: no tensor of shape \<open>(2, 21, 224, 224)\<close> is returned.
\<close>

theorem forward_224_counterexample:
  "\<not> isl (DeepLabv3_init 16 21) \<and>
   DeepLabv3_forward (projr (DeepLabv3_init 16 21)) True (2, 3, 224, 224) = Inl RuntimeError \<and>
   DeepLabv3_forward (projr (DeepLabv3_init 16 21)) True (2, 3, 224, 224) \<noteq> Inr (2, 21, 224, 224)"
proof -
  obtain m where i: "DeepLabv3_init 16 21 = Inr m" using DeepLabv3_init_16_ex by blast
  have "DeepLabv3_forward m True (2, 3, 224, 224) = Inl RuntimeError"
    by (rule DeepLabv3_forward_224 [OF i])
  then show ?thesis by (simp add: i)
qed

section \<open>Rounding to the nearest double\<close>

lemma rne_cases: "rne y = \<lfloor>y\<rfloor> \<or> rne y = \<lfloor>y\<rfloor> + 1"
  by (simp add: rne_def Let_def)

lemma rne_of_int [simp]: "rne (of_int k) = k"
  by (simp add: rne_def Let_def)


lemma rne_mono:
  assumes "a \<le> b"
  shows "rne a \<le> rne b"
proof (cases "\<lfloor>a\<rfloor> = \<lfloor>b\<rfloor>")
  case False
  then have "\<lfloor>a\<rfloor> < \<lfloor>b\<rfloor>" using assms floor_mono [of a b] by simp
  moreover have "rne a \<le> \<lfloor>a\<rfloor> + 1" using rne_cases [of a] by auto
  moreover have "\<lfloor>b\<rfloor> \<le> rne b" using rne_cases [of b] by auto
  ultimately show ?thesis by simp
next
  case True
  have "a - of_int \<lfloor>b\<rfloor> \<le> b - of_int \<lfloor>b\<rfloor>" using assms by simp
  then show ?thesis
    by (auto simp: rne_def Let_def True)
qed

lemma rne_ge: "of_int k \<le> y \<Longrightarrow> k \<le> rne y"
  using rne_mono [of "of_int k" y] by simp

lemma rne_le: "y \<le> of_int k \<Longrightarrow> rne y \<le> k"
  using rne_mono [of y "of_int k"] by simp

lemma binade:
  assumes "0 < x"
  shows "2 powr of_int \<lfloor>log 2 x\<rfloor> \<le> x \<and> x < 2 powr (of_int \<lfloor>log 2 x\<rfloor> + 1)"
  using floor_log_eq_powr_iff [of x 2 "\<lfloor>log 2 x\<rfloor>"] assms by simp

lemma ulp_exp_pos: "0 < x \<Longrightarrow> ulp_exp x = max \<lfloor>log 2 x\<rfloor> (- 1022) - 52"
  by (simp add: ulp_exp_def)

lemma round_double_pos_eq:
  "0 < x \<Longrightarrow> round_double x = of_int (rne (x / 2 powr of_int (ulp_exp x))) * 2 powr of_int (ulp_exp x)"
  by (simp add: round_double_def)

lemma round_double_upper:
  assumes "0 < x"
  shows "round_double x \<le> 2 powr (of_int (ulp_exp x) + 53)"
proof -
  let ?k = "ulp_exp x"
  have "\<lfloor>log 2 x\<rfloor> \<le> max \<lfloor>log 2 x\<rfloor> (- 1022)"
    by (rule max.cobounded1)
  then have "\<lfloor>log 2 x\<rfloor> + 1 \<le> ?k + 53"
    using ulp_exp_pos [OF assms] by linarith
  then have "(of_int (\<lfloor>log 2 x\<rfloor> + 1) :: real) \<le> of_int (?k + 53)"
    by (simp only: of_int_le_iff)
  then have "of_int \<lfloor>log 2 x\<rfloor> + 1 \<le> (of_int ?k + 53 :: real)"
    by simp
  then have "2 powr (of_int \<lfloor>log 2 x\<rfloor> + 1) \<le> (2::real) powr (of_int ?k + 53)"
    by simp
  then have "x \<le> 2 powr (of_int ?k + 53)" using binade [OF assms] by linarith
  then have "x / 2 powr of_int ?k \<le> 2 powr 53"
    by (simp add: powr_add field_simps)
  also have "(2::real) powr 53 = of_int (2 ^ 53)" by simp
  finally have "rne (x / 2 powr of_int ?k) \<le> 2 ^ 53" by (rule rne_le)
  then have "(of_int (rne (x / 2 powr of_int ?k)) :: real) \<le> of_int (2 ^ 53)"
    by (simp only: of_int_le_iff)
  then have "of_int (rne (x / 2 powr of_int ?k)) * 2 powr of_int ?k \<le> (2::real) powr 53 * 2 powr of_int ?k"
    by (intro mult_right_mono) simp_all
  then show ?thesis using assms by (simp add: round_double_def powr_add mult.commute)
qed

lemma round_double_lower:
  assumes "0 < x" and "- 1022 \<le> \<lfloor>log 2 x\<rfloor>"
  shows "2 powr (of_int (ulp_exp x) + 52) \<le> round_double x"
proof -
  let ?k = "ulp_exp x"
  have "max \<lfloor>log 2 x\<rfloor> (- 1022) = \<lfloor>log 2 x\<rfloor>"
    using assms(2) by (rule max_absorb1)
  then have "?k + 52 = \<lfloor>log 2 x\<rfloor>"
    using ulp_exp_pos [OF assms(1)] by linarith
  then have "(of_int (?k + 52) :: real) = of_int \<lfloor>log 2 x\<rfloor>"
    by (simp only:)
  then have k: "of_int ?k + 52 = (of_int \<lfloor>log 2 x\<rfloor> :: real)"
    by simp
  have "2 powr (of_int ?k + 52) \<le> x" using binade [OF assms(1)] by (simp add: k)
  then have "2 powr 52 \<le> x / 2 powr of_int ?k"
    by (simp add: powr_add field_simps)
  moreover have "(2::real) powr 52 = of_int (2 ^ 52)" by simp
  ultimately have "2 ^ 52 \<le> rne (x / 2 powr of_int ?k)" by (intro rne_ge) simp
  then have "(of_int (2 ^ 52) :: real) \<le> of_int (rne (x / 2 powr of_int ?k))"
    by (simp only: of_int_le_iff)
  then have "(2::real) powr 52 * 2 powr of_int ?k \<le> of_int (rne (x / 2 powr of_int ?k)) * 2 powr of_int ?k"
    by (intro mult_right_mono) simp_all
  then show ?thesis using assms by (simp add: round_double_def powr_add mult.commute)
qed

lemma round_double_nonneg: "0 \<le> x \<Longrightarrow> 0 \<le> round_double x"
proof (cases "x = 0")
  case True then show ?thesis by (simp add: round_double_def)
next
  case False
  assume "0 \<le> x"
  then have "0 \<le> x / 2 powr of_int (ulp_exp x)" by simp
  then have "0 \<le> rne (x / 2 powr of_int (ulp_exp x))" using rne_ge [of 0] by simp
  then show ?thesis using False by (simp add: round_double_def)
qed

lemma ulp_exp_mono: "0 < x \<Longrightarrow> x \<le> y \<Longrightarrow> ulp_exp x \<le> ulp_exp y"
proof -
  assume a: "0 < x" "x \<le> y"
  then have "log 2 x \<le> log 2 y" by simp
  then have "\<lfloor>log 2 x\<rfloor> \<le> \<lfloor>log 2 y\<rfloor>" by (rule floor_mono)
  then have "max \<lfloor>log 2 x\<rfloor> (- 1022) \<le> max \<lfloor>log 2 y\<rfloor> (- 1022)"
    by (rule max.mono) (rule order_refl)
  moreover have "0 < y" using a by simp
  ultimately show ?thesis using ulp_exp_pos [of x] ulp_exp_pos [of y] a(1) by linarith
qed

lemma round_double_mono:
  assumes "0 \<le> x" and "x \<le> y"
  shows "round_double x \<le> round_double y"
proof (cases "x = 0")
  case True
  then show ?thesis using assms round_double_nonneg [of y] by (simp add: round_double_def)
next
  case False
  then have x: "0 < x" and y: "0 < y" using assms by simp_all
  show ?thesis
  proof (cases "ulp_exp x = ulp_exp y")
    case True
    have "x / 2 powr of_int (ulp_exp y) \<le> y / 2 powr of_int (ulp_exp y)"
      using assms by (simp add: divide_right_mono)
    then have "rne (x / 2 powr of_int (ulp_exp y)) \<le> rne (y / 2 powr of_int (ulp_exp y))"
      by (rule rne_mono)
    then have "(of_int (rne (x / 2 powr of_int (ulp_exp y))) :: real)
                 \<le> of_int (rne (y / 2 powr of_int (ulp_exp y)))"
      by (simp only: of_int_le_iff)
    then have "of_int (rne (x / 2 powr of_int (ulp_exp y))) * (2::real) powr of_int (ulp_exp y)
                 \<le> of_int (rne (y / 2 powr of_int (ulp_exp y))) * 2 powr of_int (ulp_exp y)"
      by (intro mult_right_mono) simp_all
    then show ?thesis using x y by (simp add: round_double_def True)
  next
    case False
    then have lt: "ulp_exp x < ulp_exp y" using ulp_exp_mono [OF x assms(2)] by simp
    have "- 1022 \<le> max \<lfloor>log 2 x\<rfloor> (- 1022)" by (rule max.cobounded2)
    then have "- 1074 \<le> ulp_exp x" using ulp_exp_pos [OF x] by linarith
    then have "- 1022 < max \<lfloor>log 2 y\<rfloor> (- 1022)"
      using lt ulp_exp_pos [OF y] by linarith
    then have "- 1022 \<le> \<lfloor>log 2 y\<rfloor>"
      by linarith
    from round_double_lower [OF y this] have l: "2 powr (of_int (ulp_exp y) + 52) \<le> round_double y" .
    have "of_int (ulp_exp x) + 53 \<le> (of_int (ulp_exp y) + 52 :: real)" using lt by simp
    then have "(2::real) powr (of_int (ulp_exp x) + 53) \<le> 2 powr (of_int (ulp_exp y) + 52)"
      by simp
    with round_double_upper [OF x] l show ?thesis by linarith
  qed
qed

lemma round_double_one [simp]: "round_double 1 = 1"
proof -
  have k: "ulp_exp 1 = - 52" by (simp add: ulp_exp_def)
  have "(1::real) / 2 powr of_int (- 52) = of_int (2 ^ 52)"
    by (simp add: powr_minus field_simps)
  then have "rne (1 / 2 powr of_int (- 52)) = 2 ^ 52" by (simp only: rne_of_int)
  then show ?thesis by (simp add: round_double_def k powr_minus)
qed

lemma round_double_zero [simp]: "round_double 0 = 0"
  by (simp add: round_double_def)


lemma round_double_pos:
  assumes "2 powr (- 1022) \<le> x"
  shows "0 < round_double x"
proof -
  have x: "0 < x" using assms by (rule less_le_trans [rotated]) simp
  have "- 1022 \<le> log 2 x" using assms x by (simp add: le_log_iff)
  then have "- 1022 \<le> \<lfloor>log 2 x\<rfloor>" by (simp add: le_floor_iff)
  from round_double_lower [OF x this] show ?thesis
    by (rule less_le_trans [rotated]) simp
qed

section \<open>The learning-rate schedule\<close>

lemma not_overflows: "\<bar>r\<bar> \<le> 1 \<Longrightarrow> \<not> overflows r"
proof -
  assume "\<bar>r\<bar> \<le> 1"
  moreover have "(1::real) < 2 ^ 1024 - 2 ^ 970" by simp
  ultimately show ?thesis unfolding overflows_def by linarith
qed

lemma default_power_pos: "0 < default_power"
proof -
  have "(2::real) powr (- 1022) \<le> 2 powr (- 1)" by (intro powr_mono) simp_all
  also have "\<dots> \<le> 9 / 10" by (simp add: powr_minus)
  finally show ?thesis unfolding default_power_def by (rule round_double_pos)
qed

lemma round_double_unit:
  assumes "0 \<le> x" and "x \<le> 1"
  shows "0 \<le> round_double x \<and> round_double x \<le> 1"
  using round_double_nonneg [OF assms(1)] round_double_mono [OF assms] by simp

lemma float_pow_unit:
  assumes "0 \<le> x" and "x \<le> 1"
  shows "float_pow x default_power = Inr (PyFloat (round_double (x powr default_power)))"
proof (cases "x = 0")
  case True
  then show ?thesis using default_power_pos by (simp add: float_pow_def)
next
  case False
  have "x powr default_power \<le> 1"
    using assms default_power_pos by (intro powr_le1) simp_all
  then have "\<not> overflows (x powr default_power)"
    by (intro not_overflows) simp
  then show ?thesis using False assms default_power_pos by (simp add: float_pow_def)
qed

text \<open>The value of the schedule at a step between 1 and \<open>n_steps\<close>.\<close>

lemma get_lr_value:
  assumes "1 \<le> step" and "step \<le> n_steps"
  shows "get_lr step n_steps default_power
           = Inr (PyFloat (round_double (1 - round_double
               (round_double (real_of_int step / real_of_int n_steps) powr default_power))))"
proof -
  let ?q = "real_of_int step / real_of_int n_steps"
  have n: "0 < n_steps" using assms by simp
  have q: "0 \<le> ?q" "?q \<le> 1" using assms n by simp_all
  then have "\<not> overflows ?q" by (intro not_overflows) simp
  then have d: "int_truediv step n_steps = Inr (round_double ?q)"
    using n by (simp add: int_truediv_def)
  note u = round_double_unit [OF q]
  have p: "float_pow (round_double ?q) default_power
             = Inr (PyFloat (round_double (round_double ?q powr default_power)))"
    using u by (intro float_pow_unit) simp_all
  show ?thesis by (simp add: get_lr_def d p one_minus_def)
qed





section \<open>Evaluation\<close>

text \<open>
  Claim C10.  On an empty validation loader \<open>evaluate\<close> returns no value: the loop body
  never runs, \<open>batch\<close> is still unbound at the division, and the read raises
  UnboundLocalError.  Whenever \<open>evaluate\<close> returns a value, the loader has at least one
  batch.
\<close>

theorem evaluate_empty_unbound:
  "evaluate [] model metric = Inl UnboundLocalError \<and>
   (\<forall>v. evaluate val_dl model metric = Inr v \<longrightarrow> val_dl \<noteq> [])"
  by (auto simp: evaluate_def enumerate1_Nil)

theorem evaluate_empty_unbound_witness:
  "evaluate [(0::nat, 0::nat)] (\<lambda>i. Inr i) (\<lambda>p g. Inr 1) = Inr 1 \<and> [(0::nat, 0::nat)] \<noteq> []"
  using evaluate_empty_unbound [of "\<lambda>i. Inr i" "\<lambda>p g. Inr 1" "[(0::nat, 0::nat)]"]
  by (simp add: evaluate_def enumerate1_def)

section \<open>Construction of the model\<close>

text \<open>
  Claim C9.  \<open>DeepLabv3(output_stride, n_classes)\<close> with an output stride other than 16
  raises AttributeError, because \<open>atrous_rates\<close> is assigned only when the stride is 16
  and is read when the ASPP module is built; with stride 16 the model is constructed and
  its dilation rates are (6, 12, 18).
\<close>

theorem DeepLabv3_init_stride:
  "(output_stride \<noteq> 16 \<longrightarrow> DeepLabv3_init output_stride n = Inl AttributeError) \<and>
   (\<exists>m. DeepLabv3_init 16 n = Inr m \<and> rates m = [6, 12, 18] \<and>
        atrous_rates (aspp m) = [6, 12, 18])"
  by (simp add: DeepLabv3_init_def getattr_def ASPP_init_def index_def Let_def)

theorem DeepLabv3_init_stride_witness:
  "(8::int) \<noteq> 16 \<and> DeepLabv3_init 8 21 = Inl AttributeError"
  using DeepLabv3_init_stride [of 8 21] by simp

lemma evaluate_loop_ok:
  "map (\<lambda>(k, img, gt). and_then (model img) (\<lambda>pred. metric pred gt)) ps = map Inr ms \<Longrightarrow>
   evaluate_loop model metric (s, b) ps
     = Inr (s + sum_list ms, if ps = [] then b else Some (fst (last ps)))"
proof (induction ps arbitrary: s b ms)
  case Nil
  then show ?case by simp
next
  case (Cons p ps)
  obtain k img gt where p: "p = (k, img, gt)" by (cases p) auto
  from Cons.prems obtain m ms' where ms: "ms = m # ms'"
    and m: "and_then (model img) (\<lambda>pred. metric pred gt) = Inr m"
    and rest: "map (\<lambda>(k, img, gt). and_then (model img) (\<lambda>pred. metric pred gt)) ps = map Inr ms'"
    by (cases ms) (auto simp: p)
  from m obtain pred where pr: "model img = Inr pred" "metric pred gt = Inr m"
    by (auto simp: and_then_Inr_iff)
  show ?case
    using Cons.IH [OF rest, of "s + m" "Some k"] pr
    by (simp add: p ms add.assoc)
qed

lemma enumerate1_length: "length (enumerate1 xs) = length xs"
  by (simp add: enumerate1_def del: upt_Suc)

lemma enumerate1_last: "xs \<noteq> [] \<Longrightarrow> fst (last (enumerate1 xs)) = length xs"
proof -
  assume ne: "xs \<noteq> []"
  then have pos: "0 < length xs" by simp
  have "enumerate1 xs \<noteq> []" using ne enumerate1_length [of xs] by auto
  then have "last (enumerate1 xs) = enumerate1 xs ! (length xs - 1)"
    by (simp add: last_conv_nth enumerate1_length)
  also have "\<dots> = ([1 ..< Suc (length xs)] ! (length xs - 1), xs ! (length xs - 1))"
    using pos by (simp add: enumerate1_def del: upt_Suc)
  also have "[1 ..< Suc (length xs)] ! (length xs - 1) = 1 + (length xs - 1)"
    using pos by (intro nth_upt) simp
  finally show ?thesis using pos by simp
qed

lemma enumerate1_map:
  "map (\<lambda>(k, p). f p) (enumerate1 xs) = map f xs"
proof -
  have "map (\<lambda>(k, p). f p) (enumerate1 xs) = map f (map snd (enumerate1 xs))"
    by (simp add: case_prod_beta comp_def)
  also have "map snd (enumerate1 xs) = xs"
    by (simp add: enumerate1_def del: upt_Suc)
  finally show ?thesis .
qed

text \<open>
  Claim C4.  For a non-empty validation loader on which the model and the metric return
  for every batch, \<open>evaluate\<close> returns the arithmetic mean of the per-batch mIoU values:
  their sum divided by the number of batches.
\<close>

theorem evaluate_mean:
  assumes "val_dl \<noteq> []"
    and "map (\<lambda>(img, gt). and_then (model img) (\<lambda>pred. metric pred gt)) val_dl = map Inr mious"
  shows "evaluate val_dl model metric = Inr (sum_list mious / real (length val_dl))"
proof -
  have "map (\<lambda>(k, img, gt). and_then (model img) (\<lambda>pred. metric pred gt)) (enumerate1 val_dl)
        = map Inr mious"
    using enumerate1_map [of "\<lambda>(img, gt). and_then (model img) (\<lambda>pred. metric pred gt)" val_dl] assms(2)
    by simp
  from evaluate_loop_ok [OF this, of 0 None]
  have "evaluate_loop model metric (0, None) (enumerate1 val_dl)
        = Inr (sum_list mious, Some (length val_dl))"
    using assms(1) enumerate1_last [OF assms(1)] enumerate1_length [of val_dl] by auto
  then show ?thesis using assms(1) by (simp add: evaluate_def)
qed

theorem evaluate_mean_witness:
  "[(1::nat, 2::nat), (3, 4)] \<noteq> [] \<and>
   evaluate [(1::nat, 2::nat), (3, 4)] (\<lambda>i. Inr i) (\<lambda>p g. Inr (real (p + g))) = Inr 5"
proof -
  have a: "[(1::nat, 2::nat), (3, 4)] \<noteq> []" by simp
  have b: "map (\<lambda>(img, gt). and_then (Inr img) (\<lambda>pred. Inr (real (pred + gt)))) [(1::nat, 2::nat), (3, 4)]
           = map Inr [3, 7]" by simp
  from evaluate_mean [OF a b] a show ?thesis by simp
qed

section \<open>Exceptions in the training loop\<close>

lemma train_loop_append:
  "train_loop env n st (pre @ post) = and_then (train_loop env n st pre) (\<lambda>st'. train_loop env n st' post)"
  by (induction pre arbitrary: st) (simp_all add: and_then_def split: sum.splits)

lemma train_raises:
  "1 \<le> k \<Longrightarrow> k \<le> n \<Longrightarrow> train_loop env n start [1 .. k - 1] = Inr st \<Longrightarrow>
   train_step env n k st = Inl e \<Longrightarrow> train env n start = Inl e"
  by (simp add: train_def upto_split3 [of 1 k n] train_loop_append)

text \<open>
  Claim C6.  The only exception caught in a training step is StopIteration raised by
  \<open>next(train_di)\<close>: the iterator is then recreated and \<open>next\<close> is called once more (the
  counters go up by two calls of \<open>next\<close> and one of \<open>iter\<close>), and whatever the recreation or
  that second call raises leaves the step.  Any other exception of the first \<open>next\<close>, and
  any exception of a later statement of the step, leaves the step, and an exception that
  leaves a step leaves the loop \<open>for step in range(1, N_STEPS + 1)\<close>.
\<close>

theorem only_StopIteration_recovered:
  "(next_batch env (train_di st) = Inl StopIteration \<and> iter_train_dl env (iter_calls st) = Inr it \<and>
      next_batch env it = Inr (batch, it') \<longrightarrow>
      draw env st = Inr (batch, st\<lparr>train_di := it', next_calls := next_calls st + 2,
                                    iter_calls := iter_calls st + 1\<rparr>)) \<and>
   (next_batch env (train_di st) = Inl StopIteration \<and> iter_train_dl env (iter_calls st) = Inr it \<and>
      next_batch env it = Inl e \<longrightarrow> draw env st = Inl e) \<and>
   (next_batch env (train_di st) = Inl StopIteration \<and> iter_train_dl env (iter_calls st) = Inl e \<longrightarrow>
      draw env st = Inl e) \<and>
   (next_batch env (train_di st) = Inl e \<and> e \<noteq> StopIteration \<longrightarrow> draw env st = Inl e) \<and>
   (next_batch env (train_di st) = Inr (batch, it') \<longrightarrow>
      draw env st = Inr (batch, st\<lparr>train_di := it', next_calls := next_calls st + 1\<rparr>)) \<and>
   (draw env st = Inl e \<longrightarrow> train_step env n_steps step st = Inl e) \<and>
   (draw env st = Inr (batch, st') \<and> to_device env batch = Inl e \<longrightarrow>
      train_step env n_steps step st = Inl e) \<and>
   (draw env st = Inr (batch, st') \<and> to_device env batch = Inr batch' \<and>
      get_lr step n_steps default_power = Inl e \<longrightarrow> train_step env n_steps step st = Inl e) \<and>
   (draw env st = Inr (batch, st') \<and> to_device env batch = Inr batch' \<and>
      get_lr step n_steps default_power = Inr lr \<and> optimise env lr batch' (params st') = Inl e \<longrightarrow>
      train_step env n_steps step st = Inl e) \<and>
   (draw env st = Inr (batch, st') \<and> to_device env batch = Inr batch' \<and>
      get_lr step n_steps default_power = Inr lr \<and> optimise env lr batch' (params st') = Inr s \<and>
      report env step lr s = Inl e \<longrightarrow> train_step env n_steps step st = Inl e) \<and>
   (train_loop env n_steps start pre = Inr st \<and> train_step env n_steps step st = Inl e \<longrightarrow>
      train_loop env n_steps start (pre @ step # post) = Inl e) \<and>
   (1 \<le> step \<and> step \<le> n_steps \<and> train_loop env n_steps start [1 .. step - 1] = Inr st \<and>
      train_step env n_steps step st = Inl e \<longrightarrow> train env n_steps start = Inl e)"
proof -
  have a: "(next_batch env (train_di st) = Inl StopIteration \<and> iter_train_dl env (iter_calls st) = Inr it \<and>
      next_batch env it = Inr (batch, it') \<longrightarrow>
      draw env st = Inr (batch, st\<lparr>train_di := it', next_calls := next_calls st + 2,
                                    iter_calls := iter_calls st + 1\<rparr>)) \<and>
   (next_batch env (train_di st) = Inl StopIteration \<and> iter_train_dl env (iter_calls st) = Inr it \<and>
      next_batch env it = Inl e \<longrightarrow> draw env st = Inl e) \<and>
   (next_batch env (train_di st) = Inl StopIteration \<and> iter_train_dl env (iter_calls st) = Inl e \<longrightarrow>
      draw env st = Inl e) \<and>
   (next_batch env (train_di st) = Inl e \<and> e \<noteq> StopIteration \<longrightarrow> draw env st = Inl e) \<and>
   (next_batch env (train_di st) = Inr (batch, it') \<longrightarrow>
      draw env st = Inr (batch, st\<lparr>train_di := it', next_calls := next_calls st + 1\<rparr>)) \<and>
   (draw env st = Inl e \<longrightarrow> train_step env n_steps step st = Inl e) \<and>
   (draw env st = Inr (batch, st') \<and> to_device env batch = Inl e \<longrightarrow>
      train_step env n_steps step st = Inl e) \<and>
   (draw env st = Inr (batch, st') \<and> to_device env batch = Inr batch' \<and>
      get_lr step n_steps default_power = Inl e \<longrightarrow> train_step env n_steps step st = Inl e) \<and>
   (draw env st = Inr (batch, st') \<and> to_device env batch = Inr batch' \<and>
      get_lr step n_steps default_power = Inr lr \<and> optimise env lr batch' (params st') = Inl e \<longrightarrow>
      train_step env n_steps step st = Inl e) \<and>
   (draw env st = Inr (batch, st') \<and> to_device env batch = Inr batch' \<and>
      get_lr step n_steps default_power = Inr lr \<and> optimise env lr batch' (params st') = Inr s \<and>
      report env step lr s = Inl e \<longrightarrow> train_step env n_steps step st = Inl e) \<and>
   (train_loop env n_steps start pre = Inr st \<and> train_step env n_steps step st = Inl e \<longrightarrow>
      train_loop env n_steps start (pre @ step # post) = Inl e)"
    by (simp add: draw_def train_step_def train_loop_append)
  have b: "(1 \<le> step \<and> step \<le> n_steps \<and> train_loop env n_steps start [1 .. step - 1] = Inr st \<and>
        train_step env n_steps step st = Inl e \<longrightarrow> train env n_steps start = Inl e)"
    by (blast intro: train_raises)
  from a b show ?thesis
    by (elim conjE) (intro conjI; assumption)
qed

theorem only_StopIteration_recovered_witness:
  "draw \<lparr>next_batch = (\<lambda>xs. case xs of [] \<Rightarrow> Inl StopIteration | x # r \<Rightarrow> Inr (x, r)),
         iter_train_dl = (\<lambda>k. Inr [10, 20 :: nat]),
         to_device = Inr,
         optimise = (\<lambda>lr b s. Inr s),
         report = (\<lambda>step lr s. Inr s)\<rparr>
        \<lparr>train_di = [], params = (), next_calls = 5, iter_calls = 1\<rparr>
     = Inr (10, \<lparr>train_di = [20], params = (), next_calls = 7, iter_calls = 2\<rparr>) \<and>
   train_loop \<lparr>next_batch = (\<lambda>xs. case xs of [] \<Rightarrow> Inl RuntimeError | x # r \<Rightarrow> Inr (x, r)),
         iter_train_dl = (\<lambda>k. Inr [10, 20 :: nat]),
         to_device = Inr,
         optimise = (\<lambda>lr b s. Inr s),
         report = (\<lambda>step lr s. Inr s)\<rparr> 3
        \<lparr>train_di = [7], params = (), next_calls = 0, iter_calls = 0\<rparr> ([1] @ 2 # [3])
     = Inl RuntimeError"
proof -
  let ?env = "\<lparr>next_batch = (\<lambda>xs. case xs of [] \<Rightarrow> Inl StopIteration | x # r \<Rightarrow> Inr (x, r)),
         iter_train_dl = (\<lambda>k. Inr [10, 20 :: nat]),
         to_device = Inr,
         optimise = (\<lambda>lr b s. Inr s),
         report = (\<lambda>step lr (s::unit). Inr s)\<rparr>"
  let ?env' = "\<lparr>next_batch = (\<lambda>xs. case xs of [] \<Rightarrow> Inl RuntimeError | x # r \<Rightarrow> Inr (x, r)),
         iter_train_dl = (\<lambda>k. Inr [10, 20 :: nat]),
         to_device = Inr,
         optimise = (\<lambda>lr b s. Inr s),
         report = (\<lambda>step lr (s::unit). Inr s)\<rparr>"
  let ?sa = "\<lparr>train_di = [] :: nat list, params = (), next_calls = 5, iter_calls = 1\<rparr>"
  let ?sb = "\<lparr>train_di = [7 :: nat], params = (), next_calls = 0, iter_calls = 0\<rparr>"
  let ?sc = "\<lparr>train_di = [] :: nat list, params = (), next_calls = 1, iter_calls = 0\<rparr>"
  have a: "draw ?env ?sa = Inr (10, \<lparr>train_di = [20], params = (), next_calls = 7, iter_calls = 2\<rparr>)"
    using only_StopIteration_recovered
      [where env = ?env and st = ?sa and it = "[10, 20]" and batch = 10 and it' = "[20]",
       THEN conjunct1]
    by simp
  have lr: "get_lr 1 3 default_power
              = Inr (PyFloat (round_double (1 - round_double
                  (round_double (real_of_int 1 / real_of_int 3) powr default_power))))"
    by (rule get_lr_value) simp_all
  have pre: "train_loop ?env' 3 ?sb [1] = Inr ?sc"
    by (simp add: train_step_def draw_def lr)
  have step: "train_step ?env' 3 2 ?sc = Inl RuntimeError"
    by (simp add: train_step_def draw_def)
  have b: "train_loop ?env' 3 ?sb ([1] @ 2 # [3]) = Inl RuntimeError"
    using only_StopIteration_recovered
      [where env = ?env' and st = ?sc and start = ?sb and pre = "[1]" and step = 2
         and e = RuntimeError and n_steps = 3 and post = "[3]",
       THEN conjunct2, THEN conjunct2, THEN conjunct2, THEN conjunct2, THEN conjunct2,
       THEN conjunct2, THEN conjunct2, THEN conjunct2, THEN conjunct2, THEN conjunct2,
       THEN conjunct1, rule_format, OF conjI [OF pre step]] .
  from a b show ?thesis by (rule conjI)
qed

section \<open>The import of the model by train.py\<close>

text \<open>
  Claim C8.  train.py imports \<open>DeepLabv3ResNet101\<close> from model.py, which binds
  \<open>DeepLabv3\<close> but no name \<open>DeepLabv3ResNet101\<close>: the import raises, whatever the
  execution of the module body does, and train.py ends with an exception before anything
  after line 11, the training loop included, is run.
\<close>

theorem import_DeepLabv3ResNet101_fails:
  "''DeepLabv3ResNet101'' \<notin> set model_py_names \<and>
   ''DeepLabv3'' \<in> set model_py_names \<and>
   import_from (Inr model_py_names) ''DeepLabv3ResNet101'' = Inl ImportError \<and>
   (\<exists>e. import_from model_py ''DeepLabv3ResNet101'' = Inl e) \<and>
   (\<forall>import_voc2012 continue. \<exists>e. train_py import_voc2012 continue = Inl e)"
proof -
  have n: "''DeepLabv3ResNet101'' \<notin> set model_py_names"
    by (simp add: model_py_names_def)
  have d: "''DeepLabv3'' \<in> set model_py_names"
    by (simp add: model_py_names_def)
  have i: "import_from (Inr model_py_names) ''DeepLabv3ResNet101'' = Inl ImportError"
    using n by (simp add: import_from_def)
  have m: "model_py = Inr model_py_names \<or> (\<exists>e. model_py = Inl e)"
    by (auto simp: model_py_def and_then_def split: sum.splits)
  have f: "\<exists>e. import_from model_py ''DeepLabv3ResNet101'' = Inl e"
    using m
  proof
    assume eq: "model_py = Inr model_py_names"
    show ?thesis unfolding eq using i by blast
  next
    assume "\<exists>e. model_py = Inl e"
    then obtain e where eq: "model_py = Inl e" ..
    have "import_from (Inl e) ''DeepLabv3ResNet101'' = Inl e"
      by (simp only: import_from_def and_then_Inl)
    then show ?thesis unfolding eq by blast
  qed
  have t: "\<exists>e. train_py import_voc2012 continue = Inl e"
    for import_voc2012 and continue :: "unit \<Rightarrow> exn + 'a"
    using f by (cases import_voc2012) (auto simp: train_py_def)
  from n d i f t show ?thesis by blast
qed

end
